theory Spec2Isabelle
  imports Complex_Main "HOL-Library.Sublist" "HOL-Library.Monad_Syntax"
begin

section \<open>JavaScript strings\<close>

text \<open>
  A JavaScript string is embedded as a HOL \<open>string\<close> (a list of 8-bit characters).
  The analyzers only ever compare against ASCII tokens, so the string primitives are
  modelled on ASCII: \<open>toLowerCase\<close> and \<open>toUpperCase\<close> change the 26 ASCII letters
  and leave every other character alone; \<open>trim\<close> removes the ASCII white space
  characters (space, tab, line feed, vertical tab, form feed, carriage return).
\<close>

definition upper_letters :: string where
  "upper_letters = ''ABCDEFGHIJKLMNOPQRSTUVWXYZ''"

definition lower_letters :: string where
  "lower_letters = ''abcdefghijklmnopqrstuvwxyz''"

definition toLowerCase_char :: "char \<Rightarrow> char" where
  "toLowerCase_char c =
     (case map_of (zip upper_letters lower_letters) c of Some l \<Rightarrow> l | None \<Rightarrow> c)"

definition toUpperCase_char :: "char \<Rightarrow> char" where
  "toUpperCase_char c =
     (case map_of (zip lower_letters upper_letters) c of Some u \<Rightarrow> u | None \<Rightarrow> c)"

definition toLowerCase :: "string \<Rightarrow> string" where
  "toLowerCase s = map toLowerCase_char s"

definition toUpperCase :: "string \<Rightarrow> string" where
  "toUpperCase s = map toUpperCase_char s"

text \<open>\<open>s.startsWith(t)\<close>, \<open>s.endsWith(t)\<close> and \<open>s.includes(t)\<close>.\<close>

definition startsWith :: "string \<Rightarrow> string \<Rightarrow> bool" where
  "startsWith s t = (take (length t) s = t)"

definition endsWith :: "string \<Rightarrow> string \<Rightarrow> bool" where
  "endsWith s t = (length t \<le> length s \<and> drop (length s - length t) s = t)"

fun includes_str :: "string \<Rightarrow> string \<Rightarrow> bool" where
  "includes_str [] t = (t = [])"
| "includes_str (c # cs) t = (startsWith (c # cs) t \<or> includes_str cs t)"

section \<open>ColorAnalyzer\<close>

subsection \<open>isValidColor\<close>

text \<open>
  \<^verbatim>\<open>
  isValidColor(color) {
    if (!color) return false;
    if (color === 'transparent') return false;
    if (color === 'rgba(0, 0, 0, 0)') return false;
    if (color === 'initial' || color === 'inherit') return false;
    return true;
  }
  \<close>
  The argument is a CSS value string; \<open>!color\<close> holds for the empty string.
\<close>

definition isValidColor :: "string \<Rightarrow> bool" where
  "isValidColor color =
     (if color = [] then False
      else if color = ''transparent'' then False
      else if color = ''rgba(0, 0, 0, 0)'' then False
      else if color = ''initial'' \<or> color = ''inherit'' then False
      else True)"

subsection \<open>categorizeBySelector\<close>

text \<open>
  The five category keys of the \<open>colors\<close> object. \<open>categorizeBySelector\<close> returns one
  of these keys; its \<open>type\<close> argument is a string, and every string other than
  \<open>'background'\<close> and \<open>'text'\<close> falls through to \<open>'border'\<close>.
\<close>

datatype category = Background | Foreground | Primary | Accent | Border

definition categorizeBySelector :: "string \<Rightarrow> string \<Rightarrow> category" where
  "categorizeBySelector selector type =
     (let sel = toLowerCase selector in
      if type = ''background'' then
        (if includes_str sel ''btn'' \<or> includes_str sel ''button'' \<or> includes_str sel ''primary''
         then Primary else Background)
      else if type = ''text'' then
        (if includes_str sel ''btn'' \<or> includes_str sel ''button'' \<or> includes_str sel ''link'' \<or>
            includes_str sel ''primary'' \<or> includes_str sel ''accent''
         then Accent else Foreground)
      else Border)"

subsection \<open>The per-category maps and addColor\<close>

text \<open>
  A JavaScript \<open>Map\<close> keeps its entries in insertion order and holds each key once; it is
  embedded as an association list in insertion order. \<open>map.set\<close> on a present key replaces
  the value in place, on a fresh key it appends. A \<open>Set\<close> of source labels is a list in
  insertion order, \<open>set.add\<close> appending a label that is not yet there. Weights are the
  integers the two passes add up.
\<close>

definition map_get :: "('k \<times> 'v) list \<Rightarrow> 'k \<Rightarrow> 'v option" where
  "map_get m k = map_of m k"

definition map_has :: "('k \<times> 'v) list \<Rightarrow> 'k \<Rightarrow> bool" where
  "map_has m k = (map_get m k \<noteq> None)"

fun map_set :: "('k \<times> 'v) list \<Rightarrow> 'k \<Rightarrow> 'v \<Rightarrow> ('k \<times> 'v) list" where
  "map_set [] k v = [(k, v)]"
| "map_set ((k', v') # m) k v = (if k' = k then (k, v) # m else (k', v') # map_set m k v)"

definition map_values :: "('k \<times> 'v) list \<Rightarrow> 'v list" where
  "map_values m = map snd m"

definition set_add :: "'a list \<Rightarrow> 'a \<Rightarrow> 'a list" where
  "set_add xs x = (if x \<in> set xs then xs else xs @ [x])"

record color_item =
  item_hex :: string
  item_weight :: int
  item_sources :: "string list"

type_synonym color_map = "(string \<times> color_item) list"

record colors =
  background :: color_map
  foreground :: color_map
  primary :: color_map
  accent :: color_map
  border :: color_map

text \<open>\<open>colors[key]\<close> for one of the five keys.\<close>

fun colors_get :: "colors \<Rightarrow> category \<Rightarrow> color_map" where
  "colors_get cs Background = background cs"
| "colors_get cs Foreground = foreground cs"
| "colors_get cs Primary = primary cs"
| "colors_get cs Accent = accent cs"
| "colors_get cs Border = border cs"

text \<open>
  A hex value is a string or \<open>null\<close> (\<open>None\<close>); \<open>!hex\<close> holds for \<open>null\<close> and for the empty
  string.
\<close>

definition falsy :: "string option \<Rightarrow> bool" where
  "falsy v = (case v of None \<Rightarrow> True | Some s \<Rightarrow> s = [])"

text \<open>
  \<^verbatim>\<open>
  addColor(map, hex, source, weight = 1) {
    if (!hex) return;
    if (map.has(hex)) {
      const existing = map.get(hex);
      existing.weight += weight;
      existing.sources.add(source);
    } else {
      map.set(hex, { hex, weight, sources: new Set([source]) });
    }
  }
  \<close>
  The map is mutated in place; the model returns the new map.
\<close>

definition addColor :: "color_map \<Rightarrow> string option \<Rightarrow> string \<Rightarrow> int \<Rightarrow> color_map" where
  "addColor m hex source weight =
     (case hex of
        None \<Rightarrow> m
      | Some h \<Rightarrow>
          if h = [] then m
          else (case map_get m h of
                  Some existing \<Rightarrow>
                    map_set m h
                      (existing\<lparr>item_weight := item_weight existing + weight,
                                 item_sources := set_add (item_sources existing) source\<rparr>)
                | None \<Rightarrow>
                    map_set m h \<lparr>item_hex = h, item_weight = weight, item_sources = [source]\<rparr>))"

subsection \<open>buildColorPalette\<close>

text \<open>
  \<^verbatim>\<open>
  buildColorPalette(colors) {
    const result = [];
    const seen = new Set();
    const categories = [
      { key: 'primary', label: 'Primary' }, { key: 'accent', label: 'Accent' },
      { key: 'background', label: 'Background' }, { key: 'foreground', label: 'Foreground' },
      { key: 'border', label: 'Border' } ];
    categories.forEach(({ key, label }) => {
      const colorMap = colors[key];
      const sorted = Array.from(colorMap.values()).sort((a, b) => b.weight - a.weight);
      sorted.forEach(item => {
        if (seen.has(item.hex)) return;
        seen.add(item.hex);
        result.push({ hex: item.hex, category: label, weight: item.weight,
                      sources: Array.from(item.sources).slice(0, 3).join(', ') });
      });
    });
    return result.slice(0, 20);
  }
  \<close>
  \<open>Array.prototype.sort\<close> is stable, so with the comparator \<open>b.weight - a.weight\<close> on
  integers it is the stable sort by descending weight: \<open>sort_key\<close> (insertion sort, stable)
  on the negated weight. The two \<open>forEach\<close> loops are folds over the state
  \<open>(result, seen)\<close>.
\<close>

record palette_entry =
  entry_hex :: string
  entry_category :: string
  entry_weight :: int
  entry_sources :: string

fun join :: "string \<Rightarrow> string list \<Rightarrow> string" where
  "join sep [] = []"
| "join sep [x] = x"
| "join sep (x # y # ys) = x @ sep @ join sep (y # ys)"

definition categories :: "(category \<times> string) list" where
  "categories =
     [(Primary, ''Primary''), (Accent, ''Accent''), (Background, ''Background''),
      (Foreground, ''Foreground''), (Border, ''Border'')]"

definition sort_by_weight_desc :: "color_item list \<Rightarrow> color_item list" where
  "sort_by_weight_desc items = sort_key (\<lambda>i. - item_weight i) items"

definition palette_entry_of :: "string \<Rightarrow> color_item \<Rightarrow> palette_entry" where
  "palette_entry_of label item =
     \<lparr>entry_hex = item_hex item, entry_category = label, entry_weight = item_weight item,
      entry_sources = join '', '' (take 3 (item_sources item))\<rparr>"

definition push_item ::
  "string \<Rightarrow> color_item \<Rightarrow> palette_entry list \<times> string set \<Rightarrow> palette_entry list \<times> string set"
where
  "push_item label item st =
     (case st of (result, seen) \<Rightarrow>
        if item_hex item \<in> seen then (result, seen)
        else (result @ [palette_entry_of label item], insert (item_hex item) seen))"

definition push_category ::
  "colors \<Rightarrow> category \<times> string \<Rightarrow> palette_entry list \<times> string set
     \<Rightarrow> palette_entry list \<times> string set"
where
  "push_category cs kl st =
     (case kl of (key, label) \<Rightarrow>
        fold (push_item label) (sort_by_weight_desc (map_values (colors_get cs key))) st)"

definition buildColorPalette :: "colors \<Rightarrow> palette_entry list" where
  "buildColorPalette cs = take 20 (fst (fold (push_category cs) categories ([], {})))"

subsection \<open>Vocabulary for the palette's properties\<close>

text \<open>
  The hex values a category's map holds, the position of a category (and of its label)
  in the \<open>categories\<close> array of \<open>buildColorPalette\<close>, and the label the array pairs
  with a key. A smaller position is a higher priority.
\<close>

definition hexes :: "color_map \<Rightarrow> string set" where
  "hexes m = item_hex ` set (map_values m)"

definition category_rank :: "category \<Rightarrow> nat" where
  "category_rank k = length (takeWhile (\<lambda>kl. fst kl \<noteq> k) categories)"

definition category_label :: "category \<Rightarrow> string" where
  "category_label k = (case map_of categories k of Some l \<Rightarrow> l | None \<Rightarrow> [])"

definition label_rank :: "string \<Rightarrow> nat" where
  "label_rank l = length (takeWhile (\<lambda>kl. snd kl \<noteq> l) categories)"

text \<open>
  What the inner loop appends for one category: the entries of the items whose hex is
  not yet in \<open>seen\<close>, each hex once. \<open>segment\<close> is that list for the sorted values of a
  category's map, and \<open>all_entries\<close> is the untruncated \<open>result\<close>.
\<close>

fun fresh_entries :: "string \<Rightarrow> string set \<Rightarrow> color_item list \<Rightarrow> palette_entry list" where
  "fresh_entries l seen [] = []"
| "fresh_entries l seen (i # is) =
     (if item_hex i \<in> seen then fresh_entries l seen is
      else palette_entry_of l i # fresh_entries l (insert (item_hex i) seen) is)"

definition segment :: "colors \<Rightarrow> category \<Rightarrow> string set \<Rightarrow> palette_entry list" where
  "segment cs k seen =
     fresh_entries (category_label k) seen (sort_by_weight_desc (map_values (colors_get cs k)))"

definition all_entries :: "colors \<Rightarrow> palette_entry list" where
  "all_entries cs =
     segment cs Primary {} @
     segment cs Accent (hexes (primary cs)) @
     segment cs Background (hexes (primary cs) \<union> hexes (accent cs)) @
     segment cs Foreground (hexes (primary cs) \<union> hexes (accent cs) \<union> hexes (background cs)) @
     segment cs Border
       (hexes (primary cs) \<union> hexes (accent cs) \<union> hexes (background cs) \<union> hexes (foreground cs))"

text \<open>
  A sample state of the five maps: \<open>#3366FF\<close> was recorded both as a button background
  (Primary) and as a section background (Background).
\<close>

definition demo_colors :: colors where
  "demo_colors =
     \<lparr>background =
        [(''#FFFFFF'', \<lparr>item_hex = ''#FFFFFF'', item_weight = 500, item_sources = [''body'']\<rparr>),
         (''#3366FF'', \<lparr>item_hex = ''#3366FF'', item_weight = 40, item_sources = [''section'']\<rparr>)],
      foreground =
        [(''#222222'', \<lparr>item_hex = ''#222222'', item_weight = 1000, item_sources = [''body'']\<rparr>)],
      primary =
        [(''#FF6600'', \<lparr>item_hex = ''#FF6600'', item_weight = 1, item_sources = [''.btn-alt'']\<rparr>),
         (''#3366FF'', \<lparr>item_hex = ''#3366FF'', item_weight = 101,
                       item_sources = [''.btn-primary'', ''button'']\<rparr>)],
      accent = [],
      border = []\<rparr>"

subsection \<open>Vocabulary for the selector rule\<close>

text \<open>
  The specification's wording for the selector test: \<open>tok\<close> occurs in \<open>s\<close> as a
  case-insensitive substring when some substring of \<open>s\<close> lower-cases to \<open>tok\<close>.
\<close>

definition contains_ci :: "string \<Rightarrow> string \<Rightarrow> bool" where
  "contains_ci s tok = (\<exists>pre mid post. s = pre @ mid @ post \<and> toLowerCase mid = tok)"

section \<open>JavaScript numbers written as strings\<close>

text \<open>
  \<open>Number.prototype.toString(radix)\<close> on an integer: the digits, lower case, most
  significant first, with a minus sign for a negative number.
\<close>

definition digit_char :: "nat \<Rightarrow> char" where
  "digit_char d = ''0123456789abcdefghijklmnopqrstuvwxyz'' ! d"

fun nat_toString :: "nat \<Rightarrow> nat \<Rightarrow> string" where
  "nat_toString radix n =
     (if radix < 2 \<or> n < radix then [digit_char n]
      else nat_toString radix (n div radix) @ [digit_char (n mod radix)])"

declare nat_toString.simps [simp del]

definition int_toString :: "nat \<Rightarrow> int \<Rightarrow> string" where
  "int_toString radix i =
     (if i < 0 then CHR ''-'' # nat_toString radix (nat (- i)) else nat_toString radix (nat i))"

section \<open>JavaScript numbers\<close>

text \<open>
  A JavaScript number is \<open>NaN\<close>, an infinity or a finite value. Finite values are embedded
  as exact rationals: arithmetic on them is exact, so the rounding of a result to the
  nearest binary64 value, overflow to an infinity and the sign of zero are not part of
  the model. Comparisons with \<open>NaN\<close> are false, and \<open>NaN\<close> propagates through arithmetic.
\<close>

datatype jsnum = NaN | Num rat | PosInf | NegInf

fun js_neg :: "jsnum \<Rightarrow> jsnum" where
  "js_neg NaN = NaN"
| "js_neg (Num a) = Num (- a)"
| "js_neg PosInf = NegInf"
| "js_neg NegInf = PosInf"

fun js_add :: "jsnum \<Rightarrow> jsnum \<Rightarrow> jsnum" where
  "js_add NaN y = NaN"
| "js_add x NaN = NaN"
| "js_add (Num a) (Num b) = Num (a + b)"
| "js_add PosInf NegInf = NaN"
| "js_add NegInf PosInf = NaN"
| "js_add PosInf y = PosInf"
| "js_add NegInf y = NegInf"
| "js_add (Num a) y = y"

definition js_sub :: "jsnum \<Rightarrow> jsnum \<Rightarrow> jsnum" where
  "js_sub x y = js_add x (js_neg y)"

text \<open>The sign of a number: \<open>1\<close>, \<open>0\<close> or \<open>-1\<close>; \<open>NaN\<close> has none.\<close>

fun js_sign :: "jsnum \<Rightarrow> int option" where
  "js_sign NaN = None"
| "js_sign (Num a) = Some (if a < 0 then - 1 else if a = 0 then 0 else 1)"
| "js_sign PosInf = Some 1"
| "js_sign NegInf = Some (- 1)"

definition signed_infinity :: "int \<Rightarrow> jsnum" where
  "signed_infinity s = (if s < 0 then NegInf else PosInf)"

fun js_mul :: "jsnum \<Rightarrow> jsnum \<Rightarrow> jsnum" where
  "js_mul NaN y = NaN"
| "js_mul x NaN = NaN"
| "js_mul (Num a) (Num b) = Num (a * b)"
| "js_mul x y =
     (case (js_sign x, js_sign y) of
        (Some sx, Some sy) \<Rightarrow> if sx * sy = 0 then NaN else signed_infinity (sx * sy)
      | _ \<Rightarrow> NaN)"

text \<open>Division; a zero divisor is the positive zero.\<close>

fun js_div :: "jsnum \<Rightarrow> jsnum \<Rightarrow> jsnum" where
  "js_div NaN y = NaN"
| "js_div x NaN = NaN"
| "js_div (Num a) (Num b) =
     (if b \<noteq> 0 then Num (a / b)
      else if a = 0 then NaN else signed_infinity (if a < 0 then - 1 else 1))"
| "js_div (Num a) y = Num 0"
| "js_div x (Num b) =
     (case js_sign x of
        Some sx \<Rightarrow> signed_infinity (if b < 0 then - sx else sx)
      | None \<Rightarrow> NaN)"
| "js_div x y = NaN"

fun js_lt :: "jsnum \<Rightarrow> jsnum \<Rightarrow> bool" where
  "js_lt NaN y = False"
| "js_lt x NaN = False"
| "js_lt (Num a) (Num b) = (a < b)"
| "js_lt NegInf y = (y \<noteq> NegInf)"
| "js_lt x PosInf = (x \<noteq> PosInf)"
| "js_lt x y = False"

definition js_gt :: "jsnum \<Rightarrow> jsnum \<Rightarrow> bool" where
  "js_gt x y = js_lt y x"

text \<open>Strict equality \<open>===\<close> on numbers: \<open>NaN\<close> equals nothing.\<close>

definition js_eq :: "jsnum \<Rightarrow> jsnum \<Rightarrow> bool" where
  "js_eq x y = (x \<noteq> NaN \<and> x = y)"

subsection \<open>Reading numbers: parseInt and parseFloat\<close>

definition is_space :: "char \<Rightarrow> bool" where
  "is_space c = (c \<in> set [CHR '' '', CHR 0x09, CHR 0x0A, CHR 0x0B, CHR 0x0C, CHR 0x0D])"

definition is_digit :: "char \<Rightarrow> bool" where
  "is_digit c = (c \<in> set ''0123456789'')"

definition all_digits :: "string \<Rightarrow> bool" where
  "all_digits s = list_all is_digit s"

text \<open>The value of a digit character in radix up to 36, letters in either case.\<close>

definition digit_value :: "char \<Rightarrow> nat option" where
  "digit_value c =
     map_of
       (zip ''0123456789abcdefghijklmnopqrstuvwxyz''
          [0, 1, 2, 3, 4, 5, 6, 7, 8, 9, 10, 11, 12, 13, 14, 15, 16, 17, 18, 19, 20, 21, 22, 23,
           24, 25, 26, 27, 28, 29, 30, 31, 32, 33, 34, 35])
       (toLowerCase_char c)"

definition is_radix_digit :: "nat \<Rightarrow> char \<Rightarrow> bool" where
  "is_radix_digit radix c = (case digit_value c of Some d \<Rightarrow> d < radix | None \<Rightarrow> False)"

definition digits_value :: "nat \<Rightarrow> string \<Rightarrow> nat" where
  "digits_value radix ds = foldl (\<lambda>acc c. acc * radix + the (digit_value c)) 0 ds"

text \<open>
  \<open>parseInt(string, radix)\<close>, the radix \<open>None\<close> when the call passes none: leading white
  space is skipped, a sign is read, a \<open>0x\<close> prefix selects (or agrees with) radix 16, and
  the longest prefix of digits of the radix is the value; no digit at all gives \<open>NaN\<close>
  (\<open>None\<close>). The value is the exact integer.
\<close>

definition parseInt :: "string \<Rightarrow> nat option \<Rightarrow> int option" where
  "parseInt string radix =
     (let s1 = dropWhile is_space string;
          sign = (if startsWith s1 ''-'' then - 1 else 1 :: int);
          s2 = (if startsWith s1 ''-'' \<or> startsWith s1 ''+'' then tl s1 else s1);
          r = (case radix of None \<Rightarrow> 10 | Some n \<Rightarrow> if n = 0 then 10 else n);
          stripPrefix = (radix = None \<or> radix = Some 0 \<or> radix = Some 16);
          hex = (stripPrefix \<and> (startsWith s2 ''0x'' \<or> startsWith s2 ''0X''));
          r = (if hex then 16 else r);
          s3 = (if hex then drop 2 s2 else s2);
          ds = takeWhile (is_radix_digit r) s3
      in if r < 2 \<or> 36 < r then None
         else if ds = [] then None
         else Some (sign * int (digits_value r ds)))"

text \<open>
  \<open>parseFloat(string)\<close>: leading white space is skipped and the longest prefix that is a
  decimal literal (sign, digits, fraction, exponent, or \<open>Infinity\<close>) is the value; when
  there is none the result is \<open>NaN\<close>.
\<close>

definition scale10 :: "rat \<Rightarrow> int \<Rightarrow> rat" where
  "scale10 m e = (if 0 \<le> e then m * 10 ^ nat e else m / 10 ^ nat (- e))"

definition exponent_part :: "string \<Rightarrow> int" where
  "exponent_part s =
     (if startsWith s ''e'' \<or> startsWith s ''E'' then
        (let s1 = tl s;
             sign = (if startsWith s1 ''-'' then - 1 else 1 :: int);
             s2 = (if startsWith s1 ''-'' \<or> startsWith s1 ''+'' then tl s1 else s1);
             ds = takeWhile is_digit s2
         in if ds = [] then 0 else sign * int (digits_value 10 ds))
      else 0)"

definition parseFloat :: "string \<Rightarrow> jsnum" where
  "parseFloat string =
     (let s1 = dropWhile is_space string;
          neg = startsWith s1 ''-'';
          s2 = (if startsWith s1 ''-'' \<or> startsWith s1 ''+'' then tl s1 else s1)
      in if startsWith s2 ''Infinity'' then (if neg then NegInf else PosInf)
         else
           (let ip = takeWhile is_digit s2;
                r1 = dropWhile is_digit s2;
                dot = startsWith r1 ''.'';
                fp = (if dot then takeWhile is_digit (tl r1) else []);
                r2 = (if dot then dropWhile is_digit (tl r1) else r1)
            in if ip = [] \<and> fp = [] then NaN
               else
                 (let mant = of_nat (digits_value 10 ip)
                             + of_nat (digits_value 10 fp) / 10 ^ length fp;
                      v = scale10 mant (exponent_part r2)
                  in Num (if neg then - v else v))))"

subsection \<open>Math.round\<close>

text \<open>\<open>Math.round\<close> on a finite number: the nearest integer, a tie going up.\<close>

definition Math_round :: "rat \<Rightarrow> int" where
  "Math_round x = \<lfloor>x + 1 / 2\<rfloor>"

subsection \<open>Writing numbers: toString and toFixed\<close>

text \<open>\<open>x.toString(radix)\<close> for an integer or \<open>NaN\<close> (\<open>None\<close>).\<close>

definition integer_toString :: "nat \<Rightarrow> int option \<Rightarrow> string" where
  "integer_toString radix x = (case x of None \<Rightarrow> ''NaN'' | Some i \<Rightarrow> int_toString radix i)"

text \<open>\<open>Math.round(x).toString(radix)\<close> for any number.\<close>

definition rounded_toString :: "nat \<Rightarrow> jsnum \<Rightarrow> string" where
  "rounded_toString radix x =
     (case x of
        NaN \<Rightarrow> ''NaN''
      | PosInf \<Rightarrow> ''Infinity''
      | NegInf \<Rightarrow> ''-Infinity''
      | Num q \<Rightarrow> int_toString radix (Math_round q))"

text \<open>
  \<open>x.toFixed(f)\<close>: for a finite \<open>x\<close>, with \<open>n\<close> the integer nearest to \<open>|x| * 10^f\<close> (the
  larger one on a tie), the decimal digits of \<open>n\<close>, padded with zeros on the left to
  \<open>f + 1\<close> digits, with a point before the last \<open>f\<close> digits, and a minus sign when
  \<open>x < 0\<close>. From \<open>10^21\<close> on JavaScript prints the exponent notation of \<open>toString\<close>
  instead; the model keeps the fixed notation there, and the properties below are stated
  for values under \<open>10^21\<close>.
\<close>

definition toFixed :: "nat \<Rightarrow> jsnum \<Rightarrow> string" where
  "toFixed f x =
     (case x of
        NaN \<Rightarrow> ''NaN''
      | PosInf \<Rightarrow> ''Infinity''
      | NegInf \<Rightarrow> ''-Infinity''
      | Num q \<Rightarrow>
          (let n = nat \<lfloor>\<bar>q\<bar> * 10 ^ f + 1 / 2\<rfloor>;
               ds = nat_toString 10 n;
               ds = replicate (f + 1 - length ds) CHR ''0'' @ ds;
               k = length ds;
               m = (if f = 0 then ds else take (k - f) ds @ ''.'' @ drop (k - f) ds)
           in (if q < 0 then ''-'' else []) @ m))"

subsection \<open>toHex and hslToRgb\<close>

text \<open>
  The two regular expressions of \<open>toHex\<close> are matched by hand. In both, every greedy
  repetition is followed by a token that cannot start with a character the repetition
  accepts, so the first attempt of the backtracking matcher at a position is its only
  one: \<open>\s*\<close> skips all white space, \<open>\d+\<close> and \<open>[\d.]+\<close> take the whole run.
  \<open>String.prototype.match\<close> tries the start positions from left to right.
\<close>

definition expect :: "string \<Rightarrow> string \<Rightarrow> string option" where
  "expect lit s = (if startsWith s lit then Some (drop (length lit) s) else None)"

definition optional_char :: "char \<Rightarrow> string \<Rightarrow> string" where
  "optional_char c s = (if startsWith s [c] then tl s else s)"

definition skip_spaces :: "string \<Rightarrow> string" where
  "skip_spaces s = dropWhile is_space s"

definition one_or_more :: "(char \<Rightarrow> bool) \<Rightarrow> string \<Rightarrow> (string \<times> string) option" where
  "one_or_more cls s =
     (if takeWhile cls s = [] then None else Some (takeWhile cls s, dropWhile cls s))"

fun regex_search :: "(string \<Rightarrow> 'a option) \<Rightarrow> string \<Rightarrow> 'a option" where
  "regex_search m [] = m []"
| "regex_search m (c # cs) =
     (case m (c # cs) of Some r \<Rightarrow> Some r | None \<Rightarrow> regex_search m cs)"

text \<open>\<^verbatim>\<open>/rgba?\s*\(\s*(\d+)\s*,\s*(\d+)\s*,\s*(\d+)/\<close> at the start of \<open>s\<close>: the three groups.\<close>

definition match_rgb_here :: "string \<Rightarrow> (string \<times> string \<times> string) option" where
  "match_rgb_here s =
     do {
       s \<leftarrow> expect ''rgb'' s;
       s \<leftarrow> expect ''('' (skip_spaces (optional_char CHR ''a'' s));
       (r, s) \<leftarrow> one_or_more is_digit (skip_spaces s);
       s \<leftarrow> expect '','' (skip_spaces s);
       (g, s) \<leftarrow> one_or_more is_digit (skip_spaces s);
       s \<leftarrow> expect '','' (skip_spaces s);
       (b, s) \<leftarrow> one_or_more is_digit (skip_spaces s);
       Some (r, g, b)
     }"

text \<open>
  \<^verbatim>\<open>/hsla?\s*\(\s*([\d.]+)\s*,\s*([\d.]+)%\s*,\s*([\d.]+)%/\<close> at the start of \<open>s\<close>.
\<close>

definition is_digit_or_dot :: "char \<Rightarrow> bool" where
  "is_digit_or_dot c = (is_digit c \<or> c = CHR ''.'')"

definition match_hsl_here :: "string \<Rightarrow> (string \<times> string \<times> string) option" where
  "match_hsl_here s =
     do {
       s \<leftarrow> expect ''hsl'' s;
       s \<leftarrow> expect ''('' (skip_spaces (optional_char CHR ''a'' s));
       (h, s) \<leftarrow> one_or_more is_digit_or_dot (skip_spaces s);
       s \<leftarrow> expect '','' (skip_spaces s);
       (sat, s) \<leftarrow> one_or_more is_digit_or_dot (skip_spaces s);
       s \<leftarrow> expect ''%'' s;
       s \<leftarrow> expect '','' (skip_spaces s);
       (l, s) \<leftarrow> one_or_more is_digit_or_dot (skip_spaces s);
       s \<leftarrow> expect ''%'' s;
       Some (h, sat, l)
     }"

text \<open>
  \<^verbatim>\<open>
  hslToRgb(h, s, l) {
    let r, g, b;
    if (s === 0) {
      r = g = b = l;
    } else {
      const hue2rgb = (p, q, t) => {
        if (t < 0) t += 1;
        if (t > 1) t -= 1;
        if (t < 1/6) return p + (q - p) * 6 * t;
        if (t < 1/2) return q;
        if (t < 2/3) return p + (q - p) * (2/3 - t) * 6;
        return p;
      };
      const q = l < 0.5 ? l * (1 + s) : l + s - l * s;
      const p = 2 * l - q;
      r = hue2rgb(p, q, h + 1/3);
      g = hue2rgb(p, q, h);
      b = hue2rgb(p, q, h - 1/3);
    }
    return [r * 255, g * 255, b * 255];
  }
  \<close>
\<close>

definition hue2rgb :: "jsnum \<Rightarrow> jsnum \<Rightarrow> jsnum \<Rightarrow> jsnum" where
  "hue2rgb p q t =
     (let t = (if js_lt t (Num 0) then js_add t (Num 1) else t);
          t = (if js_gt t (Num 1) then js_sub t (Num 1) else t)
      in if js_lt t (Num (1 / 6)) then js_add p (js_mul (js_mul (js_sub q p) (Num 6)) t)
         else if js_lt t (Num (1 / 2)) then q
         else if js_lt t (Num (2 / 3))
           then js_add p (js_mul (js_mul (js_sub q p) (js_sub (Num (2 / 3)) t)) (Num 6))
         else p)"

definition hslToRgb :: "jsnum \<Rightarrow> jsnum \<Rightarrow> jsnum \<Rightarrow> jsnum list" where
  "hslToRgb h s l =
     (if js_eq s (Num 0) then
        [js_mul l (Num 255), js_mul l (Num 255), js_mul l (Num 255)]
      else
        (let q = (if js_lt l (Num (1 / 2)) then js_mul l (js_add (Num 1) s)
                  else js_sub (js_add l s) (js_mul l s));
             p = js_sub (js_mul (Num 2) l) q;
             r = hue2rgb p q (js_add h (Num (1 / 3)));
             g = hue2rgb p q h;
             b = hue2rgb p q (js_sub h (Num (1 / 3)))
         in [js_mul r (Num 255), js_mul g (Num 255), js_mul b (Num 255)]))"

text \<open>\<open>hex.length === 1 ? '0' + hex : hex\<close>.\<close>

definition pad2 :: "string \<Rightarrow> string" where
  "pad2 hex = (if length hex = 1 then CHR ''0'' # hex else hex)"

text \<open>The branch of \<open>toHex\<close> for a string that starts with \<open>rgb\<close>; \<open>None\<close> when the
  expression does not match and control falls through.\<close>

definition toHex_rgb :: "string \<Rightarrow> string option" where
  "toHex_rgb color =
     (case regex_search match_rgb_here color of
        None \<Rightarrow> None
      | Some (m1, m2, m3) \<Rightarrow>
          (let r = parseInt m1 None; g = parseInt m2 None; b = parseInt m3 None
           in Some (CHR ''#'' #
                toUpperCase (concat (map (\<lambda>x. pad2 (integer_toString 16 x)) [r, g, b])))))"

definition toHex_hsl :: "string \<Rightarrow> string option" where
  "toHex_hsl color =
     (case regex_search match_hsl_here color of
        None \<Rightarrow> None
      | Some (m1, m2, m3) \<Rightarrow>
          (let h = js_div (parseFloat m1) (Num 360);
               s = js_div (parseFloat m2) (Num 100);
               l = js_div (parseFloat m3) (Num 100);
               rgb = hslToRgb h s l
           in Some (CHR ''#'' #
                toUpperCase (concat (map (\<lambda>x. pad2 (rounded_toString 16 x)) rgb)))))"

definition toHex_hash :: "string \<Rightarrow> string" where
  "toHex_hash color =
     (let hex = toUpperCase color;
          hex = (if length hex = 4
                 then [CHR ''#'', hex ! 1, hex ! 1, hex ! 2, hex ! 2, hex ! 3, hex ! 3]
                 else hex);
          hex = (if length hex = 9 then take 7 hex else hex)
      in hex)"

text \<open>
  \<^verbatim>\<open>
  toHex(color) {
    if (!color) return null;
    if (color.startsWith('rgb')) {
      const match = color.match(/rgba?\s*\(\s*(\d+)\s*,\s*(\d+)\s*,\s*(\d+)/);
      if (match) {
        const r = parseInt(match[1]); const g = parseInt(match[2]); const b = parseInt(match[3]);
        return '#' + [r, g, b].map(x => {
          const hex = x.toString(16);
          return hex.length === 1 ? '0' + hex : hex;
        }).join('').toUpperCase();
      }
    }
    if (color.startsWith('hsl')) {
      const match = color.match(/hsla?\s*\(\s*([\d.]+)\s*,\s*([\d.]+)%\s*,\s*([\d.]+)%/);
      if (match) {
        const h = parseFloat(match[1]) / 360;
        const s = parseFloat(match[2]) / 100;
        const l = parseFloat(match[3]) / 100;
        const rgb = this.hslToRgb(h, s, l);
        return '#' + rgb.map(x => {
          const hex = Math.round(x).toString(16);
          return hex.length === 1 ? '0' + hex : hex;
        }).join('').toUpperCase();
      }
    }
    if (color.startsWith('#')) {
      let hex = color.toUpperCase();
      if (hex.length === 4) {
        hex = '#' + hex[1] + hex[1] + hex[2] + hex[2] + hex[3] + hex[3];
      }
      if (hex.length === 9) { hex = hex.substring(0, 7); }
      return hex;
    }
    try {
      const ctx = document.createElement('canvas').getContext('2d');
      ctx.fillStyle = color;
      const computed = ctx.fillStyle;
      if (computed.startsWith('#')) { return computed.toUpperCase(); }
      if (computed.startsWith('rgb')) { return this.toHex(computed); }
    } catch (e) { }
    return null;
  }
  \<close>
  The canvas is the browser's: the parameter \<open>fillStyle\<close> gives, for the string assigned
  to \<open>ctx.fillStyle\<close>, the string read back, or \<open>None\<close> when the \<open>try\<close> block throws. The
  result \<open>Some None\<close> is \<open>null\<close>; the recursion on the string read back need not end for
  an arbitrary \<open>fillStyle\<close>, and the outer \<open>None\<close> stands for a call that does not return.
\<close>

partial_function (option) toHex :: "(string \<Rightarrow> string option) \<Rightarrow> string \<Rightarrow> string option option"
where
  "toHex fillStyle color =
     (if color = [] then Some None
      else
        (case (if startsWith color ''rgb'' then toHex_rgb color else None) of
           Some hex \<Rightarrow> Some (Some hex)
         | None \<Rightarrow>
             (case (if startsWith color ''hsl'' then toHex_hsl color else None) of
                Some hex \<Rightarrow> Some (Some hex)
              | None \<Rightarrow>
                  if startsWith color ''#'' then Some (Some (toHex_hash color))
                  else
                    (case fillStyle color of
                       None \<Rightarrow> Some None
                     | Some computed \<Rightarrow>
                         if startsWith computed ''#'' then Some (Some (toUpperCase computed))
                         else if startsWith computed ''rgb'' then toHex fillStyle computed
                         else Some None))))"

declare toHex.simps [code]

subsection \<open>Vocabulary for the colour formats\<close>

text \<open>
  An upper-case \<open>#RRGGBB\<close> string; the decimal numeral of a natural number, as a browser
  writes a channel; and the two upper-case hex digits of a channel value.
\<close>

definition is_hex_upper :: "char \<Rightarrow> bool" where
  "is_hex_upper c = (c \<in> set ''0123456789ABCDEF'')"

definition is_hex_digit :: "char \<Rightarrow> bool" where
  "is_hex_digit c = (c \<in> set ''0123456789abcdefABCDEF'')"

definition is_RRGGBB :: "string \<Rightarrow> bool" where
  "is_RRGGBB s = (length s = 7 \<and> take 1 s = ''#'' \<and> list_all is_hex_upper (drop 1 s))"

definition decimal :: "nat \<Rightarrow> string" where
  "decimal n = nat_toString 10 n"

definition HEX2 :: "nat \<Rightarrow> string" where
  "HEX2 n = toUpperCase (pad2 (nat_toString 16 n))"

subsection \<open>isNeutral\<close>

text \<open>
  \<^verbatim>\<open>
  isNeutral(hex) {
    if (!hex) return true;
    const r = parseInt(hex.slice(1, 3), 16);
    const g = parseInt(hex.slice(3, 5), 16);
    const b = parseInt(hex.slice(5, 7), 16);
    const max = Math.max(r, g, b);
    const min = Math.min(r, g, b);
    const saturation = max === 0 ? 0 : (max - min) / max;
    return saturation < 0.1;
  }
  \<close>
\<close>

definition slice :: "string \<Rightarrow> nat \<Rightarrow> nat \<Rightarrow> string" where
  "slice s a b = take (b - a) (drop a s)"

definition number_of :: "int option \<Rightarrow> jsnum" where
  "number_of x = (case x of None \<Rightarrow> NaN | Some i \<Rightarrow> Num (of_int i))"

definition Math_max :: "jsnum \<Rightarrow> jsnum \<Rightarrow> jsnum \<Rightarrow> jsnum" where
  "Math_max a b c =
     (if a = NaN \<or> b = NaN \<or> c = NaN then NaN
      else (let m = (if js_lt a b then b else a) in if js_lt m c then c else m))"

definition Math_min :: "jsnum \<Rightarrow> jsnum \<Rightarrow> jsnum \<Rightarrow> jsnum" where
  "Math_min a b c =
     (if a = NaN \<or> b = NaN \<or> c = NaN then NaN
      else (let m = (if js_lt b a then b else a) in if js_lt c m then c else m))"

definition isNeutral :: "string option \<Rightarrow> bool" where
  "isNeutral hex =
     (if falsy hex then True
      else
        (let r = number_of (parseInt (slice (the hex) 1 3) (Some 16));
             g = number_of (parseInt (slice (the hex) 3 5) (Some 16));
             b = number_of (parseInt (slice (the hex) 5 7) (Some 16));
             max = Math_max r g b;
             min = Math_min r g b;
             saturation = (if js_eq max (Num 0) then Num 0 else js_div (js_sub max min) max)
         in js_lt saturation (Num (1 / 10))))"

subsection \<open>analyzeKeyElements\<close>

text \<open>
  The computed style of an element, as far as the analyzers read it, and the document
  as \<open>analyzeKeyElements\<close> sees it: the computed style of \<open>document.body\<close> and of
  \<open>document.documentElement\<close> (\<open>None\<close> when the node is absent), and for each
  \<open>querySelectorAll\<close> of the function the computed styles of the elements it returns, in
  document order (with the tag name where the function reads it).
\<close>

record computed_style =
  style_backgroundColor :: string
  style_color :: string
  style_borderTopColor :: string
  style_borderTopWidth :: string
  style_fontFamily :: string
  style_fontSize :: string
  style_fontWeight :: string
  style_lineHeight :: string

record key_elements =
  doc_body :: "computed_style option"
  doc_documentElement :: "computed_style option"
  doc_buttons :: "computed_style list"
  doc_links :: "computed_style list"
  doc_headings :: "(string \<times> computed_style) list"
  doc_containers :: "(string \<times> computed_style) list"
  doc_inputs :: "computed_style list"

text \<open>\<open>forEach\<close> with a callback that may not return.\<close>

fun forEach :: "('a \<Rightarrow> 's \<Rightarrow> 's option) \<Rightarrow> 'a list \<Rightarrow> 's \<Rightarrow> 's option" where
  "forEach f [] s = Some s"
| "forEach f (x # xs) s = (case f x s of None \<Rightarrow> None | Some s' \<Rightarrow> forEach f xs s')"

definition body_step ::
  "(string \<Rightarrow> string option) \<Rightarrow> computed_style \<Rightarrow> colors \<Rightarrow> colors option" where
  "body_step fillStyle bodyStyles cs =
     do {
       bgHex \<leftarrow> toHex fillStyle (style_backgroundColor bodyStyles);
       textHex \<leftarrow> toHex fillStyle (style_color bodyStyles);
       let cs = (if \<not> falsy bgHex \<and> bgHex \<noteq> Some ''#FFFFFF'' \<and> bgHex \<noteq> Some ''#000000''
                 then cs\<lparr>background := addColor (background cs) bgHex ''body'' 1000\<rparr>
                 else if \<not> falsy bgHex
                 then cs\<lparr>background := addColor (background cs) bgHex ''body'' 500\<rparr>
                 else cs);
       Some (if \<not> falsy textHex
             then cs\<lparr>foreground := addColor (foreground cs) textHex ''body'' 1000\<rparr>
             else cs)
     }"

definition html_step ::
  "(string \<Rightarrow> string option) \<Rightarrow> computed_style \<Rightarrow> colors \<Rightarrow> colors option" where
  "html_step fillStyle htmlStyles cs =
     do {
       bgHex \<leftarrow> toHex fillStyle (style_backgroundColor htmlStyles);
       Some (if \<not> falsy bgHex \<and> isValidColor (style_backgroundColor htmlStyles)
             then cs\<lparr>background := addColor (background cs) bgHex ''html'' 800\<rparr>
             else cs)
     }"

definition button_step ::
  "(string \<Rightarrow> string option) \<Rightarrow> computed_style \<Rightarrow> colors \<Rightarrow> colors option" where
  "button_step fillStyle styles cs =
     do {
       bgHex \<leftarrow> toHex fillStyle (style_backgroundColor styles);
       textHex \<leftarrow> toHex fillStyle (style_color styles);
       let cs = (if \<not> falsy bgHex \<and> isValidColor (style_backgroundColor styles) \<and>
                    \<not> isNeutral bgHex
                 then cs\<lparr>primary := addColor (primary cs) bgHex ''button'' 100\<rparr>
                 else cs);
       Some (if \<not> falsy textHex \<and> \<not> isNeutral textHex
             then cs\<lparr>accent := addColor (accent cs) textHex ''button-text'' 50\<rparr>
             else cs)
     }"

definition link_step ::
  "(string \<Rightarrow> string option) \<Rightarrow> computed_style \<Rightarrow> string list \<Rightarrow> string list option" where
  "link_step fillStyle styles linkColors =
     do {
       hex \<leftarrow> toHex fillStyle (style_color styles);
       Some (if \<not> falsy hex \<and> \<not> isNeutral hex then set_add linkColors (the hex)
             else linkColors)
     }"

definition link_color_step :: "string \<Rightarrow> colors \<Rightarrow> colors" where
  "link_color_step hex cs = cs\<lparr>accent := addColor (accent cs) (Some hex) ''link'' 80\<rparr>"

definition heading_step ::
  "(string \<Rightarrow> string option) \<Rightarrow> string \<times> computed_style \<Rightarrow> colors \<Rightarrow> colors option" where
  "heading_step fillStyle h cs =
     (case h of (tagName, styles) \<Rightarrow>
        do {
          hex \<leftarrow> toHex fillStyle (style_color styles);
          Some (if \<not> falsy hex
                then cs\<lparr>foreground := addColor (foreground cs) hex (toLowerCase tagName) 60\<rparr>
                else cs)
        })"

definition container_step ::
  "(string \<Rightarrow> string option) \<Rightarrow> string \<times> computed_style \<Rightarrow> colors \<Rightarrow> colors option" where
  "container_step fillStyle el cs =
     (case el of (tagName, styles) \<Rightarrow>
        do {
          bgHex \<leftarrow> toHex fillStyle (style_backgroundColor styles);
          let cs = (if \<not> falsy bgHex \<and> isValidColor (style_backgroundColor styles)
                    then cs\<lparr>background :=
                            addColor (background cs) bgHex (toLowerCase tagName) 40\<rparr>
                    else cs);
          borderHex \<leftarrow> toHex fillStyle (style_borderTopColor styles);
          Some (if \<not> falsy borderHex \<and> isValidColor (style_borderTopColor styles) \<and>
                   js_gt (parseFloat (style_borderTopWidth styles)) (Num 0)
                then cs\<lparr>border := addColor (border cs) borderHex ''container-border'' 30\<rparr>
                else cs)
        })"

definition input_step ::
  "(string \<Rightarrow> string option) \<Rightarrow> computed_style \<Rightarrow> colors \<Rightarrow> colors option" where
  "input_step fillStyle styles cs =
     do {
       borderHex \<leftarrow> toHex fillStyle (style_borderTopColor styles);
       Some (if \<not> falsy borderHex \<and> isValidColor (style_borderTopColor styles)
             then cs\<lparr>border := addColor (border cs) borderHex ''input'' 20\<rparr>
             else cs)
     }"

text \<open>
  \<open>analyzeKeyElements(colors)\<close>: the passes over body, html, buttons, links (the distinct
  link colours are collected first, then added), headings, containers and inputs. The
  \<open>colors\<close> object is mutated in place; the model returns it.
\<close>

definition analyzeKeyElements ::
  "(string \<Rightarrow> string option) \<Rightarrow> key_elements \<Rightarrow> colors \<Rightarrow> colors option" where
  "analyzeKeyElements fillStyle doc cs =
     do {
       cs \<leftarrow> (case doc_body doc of None \<Rightarrow> Some cs | Some st \<Rightarrow> body_step fillStyle st cs);
       cs \<leftarrow> (case doc_documentElement doc of
                None \<Rightarrow> Some cs
              | Some st \<Rightarrow> html_step fillStyle st cs);
       cs \<leftarrow> forEach (button_step fillStyle) (doc_buttons doc) cs;
       linkColors \<leftarrow> forEach (link_step fillStyle) (doc_links doc) [];
       let cs = fold link_color_step linkColors cs;
       cs \<leftarrow> forEach (heading_step fillStyle) (doc_headings doc) cs;
       cs \<leftarrow> forEach (container_step fillStyle) (doc_containers doc) cs;
       forEach (input_step fillStyle) (doc_inputs doc) cs
     }"

section \<open>TypographyAnalyzer\<close>

subsection \<open>String helpers\<close>

text \<open>\<open>s.trim()\<close>, \<open>s.split(',')\<close> and \<open>s.replace(/["']/g, '')\<close>.\<close>

definition trim :: "string \<Rightarrow> string" where
  "trim s = rev (dropWhile is_space (rev (dropWhile is_space s)))"

fun split :: "char \<Rightarrow> string \<Rightarrow> string list" where
  "split sep [] = [[]]"
| "split sep (c # cs) =
     (if c = sep then [] # split sep cs
      else (case split sep cs of
              [] \<Rightarrow> [[c]]
            | p # ps \<Rightarrow> (c # p) # ps))"

definition remove_quotes :: "string \<Rightarrow> string" where
  "remove_quotes s = filter (\<lambda>c. c \<noteq> CHR 0x22 \<and> c \<noteq> CHR 0x27) s"

subsection \<open>cleanFontFamily\<close>

text \<open>
  \<^verbatim>\<open>
  cleanFontFamily(fontFamily) {
    if (!fontFamily) return null;
    const fonts = fontFamily.split(',');
    let primaryFont = fonts[0].trim();
    primaryFont = primaryFont.replace(/["']/g, '');
    const systemFonts = ['system-ui', '-apple-system', 'BlinkMacSystemFont', 'Segoe UI',
                         'sans-serif', 'serif', 'monospace'];
    if (systemFonts.includes(primaryFont) && fonts.length > 1) {
      primaryFont = fonts[1].trim().replace(/["']/g, '');
    }
    return primaryFont;
  }
  \<close>
  \<open>split\<close> returns at least one piece, so \<open>fonts[0]\<close> exists, and \<open>fonts[1]\<close> is read
  only when there are two.
\<close>

definition systemFonts :: "string list" where
  "systemFonts =
     [''system-ui'', ''-apple-system'', ''BlinkMacSystemFont'', ''Segoe UI'', ''sans-serif'',
      ''serif'', ''monospace'']"

definition cleanFontFamily :: "string \<Rightarrow> string option" where
  "cleanFontFamily fontFamily =
     (if fontFamily = [] then None
      else
        (let fonts = split CHR '','' fontFamily;
             primaryFont = remove_quotes (trim (fonts ! 0))
         in if primaryFont \<in> set systemFonts \<and> 1 < length fonts
            then Some (remove_quotes (trim (fonts ! 1)))
            else Some primaryFont))"

subsection \<open>normalizeLineHeight\<close>

text \<open>
  \<^verbatim>\<open>
  normalizeLineHeight(lineHeight, fontSize) {
    if (lineHeight === 'normal') { return '1.2'; }
    if (lineHeight.endsWith('px')) {
      const lhPx = parseFloat(lineHeight);
      const fsPx = parseFloat(fontSize);
      if (fsPx > 0) { return (lhPx / fsPx).toFixed(2); }
    }
    return lineHeight;
  }
  \<close>
\<close>

definition normalizeLineHeight :: "string \<Rightarrow> string \<Rightarrow> string" where
  "normalizeLineHeight lineHeight fontSize =
     (if lineHeight = ''normal'' then ''1.2''
      else if endsWith lineHeight ''px'' then
        (let lhPx = parseFloat lineHeight;
             fsPx = parseFloat fontSize
         in if js_gt fsPx (Num 0) then toFixed 2 (js_div lhPx fsPx) else lineHeight)
      else lineHeight)"

subsection \<open>The analyzer's own toHex\<close>

text \<open>
  \<^verbatim>\<open>
  toHex(color) {
    if (color.startsWith('rgb')) {
      const match = color.match(/rgba?\((\d+),\s*(\d+),\s*(\d+)/);
      if (match) {
        const r = parseInt(match[1]); const g = parseInt(match[2]); const b = parseInt(match[3]);
        return '#' + [r, g, b].map(x => {
          const hex = x.toString(16);
          return hex.length === 1 ? '0' + hex : hex;
        }).join('').toUpperCase();
      }
    }
    if (color.startsWith('#')) { return color.toUpperCase(); }
    return color;
  }
  \<close>
\<close>

definition match_rgb_strict_here :: "string \<Rightarrow> (string \<times> string \<times> string) option" where
  "match_rgb_strict_here s =
     do {
       s \<leftarrow> expect ''rgb'' s;
       s \<leftarrow> expect ''('' (optional_char CHR ''a'' s);
       (r, s) \<leftarrow> one_or_more is_digit s;
       s \<leftarrow> expect '','' s;
       (g, s) \<leftarrow> one_or_more is_digit (skip_spaces s);
       s \<leftarrow> expect '','' s;
       (b, s) \<leftarrow> one_or_more is_digit (skip_spaces s);
       Some (r, g, b)
     }"

definition typography_toHex :: "string \<Rightarrow> string" where
  "typography_toHex color =
     (case (if startsWith color ''rgb'' then regex_search match_rgb_strict_here color else None) of
        Some (m1, m2, m3) \<Rightarrow>
          (let r = parseInt m1 None; g = parseInt m2 None; b = parseInt m3 None
           in CHR ''#'' # toUpperCase (concat (map (\<lambda>x. pad2 (integer_toString 16 x)) [r, g, b])))
      | None \<Rightarrow> if startsWith color ''#'' then toUpperCase color else color)"

subsection \<open>Elements and documents\<close>

text \<open>
  An element as the typography analyzer reads it: its tag name, its \<open>textContent\<close>, its
  child nodes (each with its \<open>nodeType\<close> and \<open>textContent\<close>) and its computed style.
  \<open>Node.TEXT_NODE\<close> is 3.
\<close>

datatype node = Node (nodeType: nat) (node_textContent: string)

definition TEXT_NODE :: nat where
  "TEXT_NODE = 3"

record element =
  tagName :: string
  textContent :: string
  childNodes :: "node list"
  computedStyle :: computed_style


fun has_direct_text :: "node list \<Rightarrow> bool" where
  "has_direct_text [] = False"
| "has_direct_text (node # nodes) =
     (if nodeType node = TEXT_NODE \<and> 0 < length (trim (node_textContent node)) then True
      else has_direct_text nodes)"

definition hasDirectTextContent :: "element \<Rightarrow> bool" where
  "hasDirectTextContent element = has_direct_text (childNodes element)"

subsection \<open>analyzeFontFamilies\<close>





subsection \<open>analyzeBodyText\<close>

text \<open>
  \<^verbatim>\<open>
  analyzeBodyText() {
    const selectors = ['p', 'body', '.content', 'main', 'article'];
    let element = null;
    for (const selector of selectors) {
      element = document.querySelector(selector);
      if (element && this.hasDirectTextContent(element)) { break; }
    }
    if (!element) {
      // Fallback to body
      element = document.body;
    }
    const styles = window.getComputedStyle(element);
    return {
      fontFamily: this.cleanFontFamily(styles.fontFamily),
      fontSize: styles.fontSize,
      fontWeight: styles.fontWeight,
      lineHeight: this.normalizeLineHeight(styles.lineHeight, styles.fontSize),
      color: this.toHex(styles.color)
    };
  }
  \<close>
  The document is what the function asks of it: \<open>querySelector\<close>, giving the first
  element that matches a selector or \<open>null\<close>, and \<open>body\<close>. The loop keeps the variable
  \<open>element\<close> across its rounds. \<open>getComputedStyle(null)\<close> throws a \<open>TypeError\<close>.
\<close>

record document =
  querySelector :: "string \<Rightarrow> element option"
  body :: "element option"

datatype js_error = TypeError

record body_snapshot =
  snapshot_fontFamily :: "string option"
  snapshot_fontSize :: string
  snapshot_fontWeight :: string
  snapshot_lineHeight :: string
  snapshot_color :: string

definition body_selectors :: "string list" where
  "body_selectors = [''p'', ''body'', ''.content'', ''main'', ''article'']"

fun probe :: "document \<Rightarrow> string list \<Rightarrow> element option \<Rightarrow> element option" where
  "probe doc [] element = element"
| "probe doc (selector # selectors) element =
     (let element = querySelector doc selector
      in if element \<noteq> None \<and> hasDirectTextContent (the element) then element
         else probe doc selectors element)"

definition body_text_element :: "document \<Rightarrow> element option" where
  "body_text_element doc =
     (let element = probe doc body_selectors None
      in if element = None then body doc else element)"

definition snapshot_of :: "computed_style \<Rightarrow> body_snapshot" where
  "snapshot_of styles =
     \<lparr>snapshot_fontFamily = cleanFontFamily (style_fontFamily styles),
      snapshot_fontSize = style_fontSize styles,
      snapshot_fontWeight = style_fontWeight styles,
      snapshot_lineHeight = normalizeLineHeight (style_lineHeight styles) (style_fontSize styles),
      snapshot_color = typography_toHex (style_color styles)\<rparr>"

definition analyzeBodyText :: "document \<Rightarrow> js_error + body_snapshot" where
  "analyzeBodyText doc =
     (case body_text_element doc of
        None \<Rightarrow> Inl TypeError
      | Some element \<Rightarrow> Inr (snapshot_of (computedStyle element)))"

subsection \<open>Vocabulary for the typography properties\<close>






text \<open>A selector qualifies when it matches an element that has direct text.\<close>

definition qualifies :: "document \<Rightarrow> string \<Rightarrow> bool" where
  "qualifies doc selector =
     (case querySelector doc selector of None \<Rightarrow> False | Some e \<Rightarrow> hasDirectTextContent e)"

section \<open>ImageAnalyzer\<close>

subsection \<open>getSvgInfo and getInlineSvgs\<close>

text \<open>
  An \<open>svg\<close> element as the analyzer reads it: the width and height of its bounding
  client rectangle (finite numbers, embedded as rationals) and its attributes. What
  \<open>XMLSerializer.serializeToString\<close> and \<open>URL.createObjectURL\<close> return is the browser's
  business: both are parameters of the model.
\<close>

record svg_element =
  rect_width :: rat
  rect_height :: rat
  attributes :: "(string \<times> string) list"
  inner_markup :: string

definition getAttribute :: "svg_element \<Rightarrow> string \<Rightarrow> string option" where
  "getAttribute el name = map_of (attributes el) name"

definition setAttribute :: "svg_element \<Rightarrow> string \<Rightarrow> string \<Rightarrow> svg_element" where
  "setAttribute el name v = el\<lparr>attributes := map_set (attributes el) name v\<rparr>"

text \<open>
  The value of \<open>Math.round(rect.width) || svg.getAttribute('width') || null\<close>: a non-zero
  number, else a non-empty attribute string, else \<open>null\<close>.
\<close>

datatype dimension = DimNumber int | DimString string | DimNull

definition dimension_of :: "rat \<Rightarrow> string option \<Rightarrow> dimension" where
  "dimension_of r attr =
     (if Math_round r \<noteq> 0 then DimNumber (Math_round r)
      else if \<not> falsy attr then DimString (the attr)
      else DimNull)"

text \<open>\<open>if (width) svgClone.setAttribute('width', width)\<close>: the value is written as a string.\<close>

definition set_dimension :: "svg_element \<Rightarrow> string \<Rightarrow> dimension \<Rightarrow> svg_element" where
  "set_dimension el name d =
     (case d of
        DimNumber n \<Rightarrow> setAttribute el name (int_toString 10 n)
      | DimString s \<Rightarrow> setAttribute el name s
      | DimNull \<Rightarrow> el)"

record svg_info =
  info_url :: "string option"
  info_width :: dimension
  info_height :: dimension
  info_type :: "string option"
  info_content :: string

text \<open>
  \<^verbatim>\<open>
  getSvgInfo(svg, isLogo = false) {
    if (!svg) return null;
    const rect = svg.getBoundingClientRect();
    const width = Math.round(rect.width) || svg.getAttribute('width') || null;
    const height = Math.round(rect.height) || svg.getAttribute('height') || null;
    const svgClone = svg.cloneNode(true);
    if (!svgClone.getAttribute('xmlns')) {
      svgClone.setAttribute('xmlns', 'http://www.w3.org/2000/svg');
    }
    if (width) svgClone.setAttribute('width', width);
    if (height) svgClone.setAttribute('height', height);
    const content = new XMLSerializer().serializeToString(svgClone);
    if (isLogo) {
      const blob = new Blob([content], { type: 'image/svg+xml' });
      return { url: URL.createObjectURL(blob), width: width, height: height,
               type: 'svg', content: content };
    }
    return { width: width, height: height, content: content };
  }
  \<close>
\<close>

definition getSvgInfo ::
  "(svg_element \<Rightarrow> string) \<Rightarrow> (string \<Rightarrow> string) \<Rightarrow> svg_element option \<Rightarrow> bool
     \<Rightarrow> svg_info option"
where
  "getSvgInfo serializeToString createObjectURL svg isLogo =
     (case svg of
        None \<Rightarrow> None
      | Some el \<Rightarrow>
          (let width = dimension_of (rect_width el) (getAttribute el ''width'');
               height = dimension_of (rect_height el) (getAttribute el ''height'');
               svgClone = el;
               svgClone = (if falsy (getAttribute svgClone ''xmlns'')
                           then setAttribute svgClone ''xmlns'' ''http://www.w3.org/2000/svg''
                           else svgClone);
               svgClone = set_dimension svgClone ''width'' width;
               svgClone = set_dimension svgClone ''height'' height;
               content = serializeToString svgClone
           in if isLogo
              then Some \<lparr>info_url = Some (createObjectURL content), info_width = width,
                          info_height = height, info_type = Some ''svg'', info_content = content\<rparr>
              else Some \<lparr>info_url = None, info_width = width, info_height = height,
                          info_type = None, info_content = content\<rparr>))"

text \<open>
  \<^verbatim>\<open>
  getInlineSvgs() {
    const svgs = [];
    const svgElements = document.querySelectorAll('svg');
    svgElements.forEach(svg => {
      // Skip tiny SVGs (likely icons less than 10px)
      const rect = svg.getBoundingClientRect();
      if (rect.width < 5 && rect.height < 5) return;
      const info = this.getSvgInfo(svg, false);
      if (info) { svgs.push(info); }
    });
    return svgs;
  }
  \<close>
  The argument \<open>svgElements\<close> is the list \<open>document.querySelectorAll('svg')\<close> returns, in
  document order.
\<close>

definition inline_svg_step ::
  "(svg_element \<Rightarrow> string) \<Rightarrow> (string \<Rightarrow> string) \<Rightarrow> svg_element \<Rightarrow> svg_info list
     \<Rightarrow> svg_info list"
where
  "inline_svg_step serializeToString createObjectURL svg svgs =
     (if rect_width svg < 5 \<and> rect_height svg < 5 then svgs
      else (case getSvgInfo serializeToString createObjectURL (Some svg) False of
              Some info \<Rightarrow> svgs @ [info]
            | None \<Rightarrow> svgs))"

definition getInlineSvgs ::
  "(svg_element \<Rightarrow> string) \<Rightarrow> (string \<Rightarrow> string) \<Rightarrow> svg_element list \<Rightarrow> svg_info list"
where
  "getInlineSvgs serializeToString createObjectURL svgElements =
     fold (inline_svg_step serializeToString createObjectURL) svgElements []"

section \<open>Sample inputs\<close>

text \<open>
  Concrete inputs at which the properties below are evaluated. \<open>no_canvas\<close> is a page
  whose canvas gives no 2D context, so that the \<open>try\<close> block of \<open>toHex\<close> throws.
\<close>

definition map_keys :: "('k \<times> 'v) list \<Rightarrow> 'k set" where
  "map_keys m = fst ` set m"

definition no_canvas :: "string \<Rightarrow> string option" where "no_canvas s = None"

definition empty_colors :: colors where
  "empty_colors = \<lparr>background = [], foreground = [], primary = [], accent = [], border = []\<rparr>"

definition style_of_colors :: "string \<Rightarrow> string \<Rightarrow> computed_style" where
  "style_of_colors bg fg =
     \<lparr>style_backgroundColor = bg, style_color = fg, style_borderTopColor = fg,
      style_borderTopWidth = ''0px'', style_fontFamily = ''Arial, sans-serif'',
      style_fontSize = ''16px'', style_fontWeight = ''400'', style_lineHeight = ''normal''\<rparr>"

definition demo_key_elements :: key_elements where
  "demo_key_elements =
     \<lparr>doc_body = Some (style_of_colors ''rgb(255, 255, 255)'' ''rgb(34, 34, 34)''),
      doc_documentElement = Some (style_of_colors ''rgba(0, 0, 0, 0)'' ''rgb(0, 0, 0)''),
      doc_buttons = [style_of_colors ''rgb(51, 102, 255)'' ''rgb(255, 255, 255)'',
                     style_of_colors ''color(display-p3 1 0 0)'' ''color(display-p3 0 1 0)''],
      doc_links = [style_of_colors ''rgba(0, 0, 0, 0)'' ''rgb(0, 102, 204)''],
      doc_headings = [],
      doc_containers = [],
      doc_inputs = []\<rparr>"

definition demo_key_result :: colors where
  "demo_key_result =
     \<lparr>background =
        [(''#FFFFFF'', \<lparr>item_hex = ''#FFFFFF'', item_weight = 500, item_sources = [''body'']\<rparr>)],
      foreground =
        [(''#222222'', \<lparr>item_hex = ''#222222'', item_weight = 1000, item_sources = [''body'']\<rparr>)],
      primary =
        [(''#3366FF'', \<lparr>item_hex = ''#3366FF'', item_weight = 100, item_sources = [''button'']\<rparr>)],
      accent =
        [(''#0066CC'', \<lparr>item_hex = ''#0066CC'', item_weight = 80, item_sources = [''link'']\<rparr>)],
      border = []\<rparr>"

definition demo_serializeToString :: "svg_element \<Rightarrow> string" where
  "demo_serializeToString el =
     ''<svg'' @ concat (map (\<lambda>(n, v). '' '' @ n @ ''='' @ [CHR 0x22] @ v @ [CHR 0x22]) (attributes el))
       @ ''>'' @ inner_markup el @ ''</svg>''"

definition demo_createObjectURL :: "string \<Rightarrow> string" where
  "demo_createObjectURL content = ''blob:demo''"

definition thin_svg :: svg_element where
  "thin_svg = \<lparr>rect_width = 3, rect_height = 100, attributes = [(''class'', ''divider'')],
               inner_markup = ''<path d=M0,0v100 />''\<rparr>"



definition style_of_font :: "string \<Rightarrow> string \<Rightarrow> string \<Rightarrow> computed_style" where
  "style_of_font family fsize lh =
     \<lparr>style_backgroundColor = ''rgba(0, 0, 0, 0)'', style_color = ''rgb(34, 34, 34)'',
      style_borderTopColor = ''rgb(34, 34, 34)'', style_borderTopWidth = ''0px'',
      style_fontFamily = family, style_fontSize = fsize, style_fontWeight = ''400'',
      style_lineHeight = lh\<rparr>"

text \<open>
  The page \<^verbatim>\<open><body><article><span>Hello</span></article></body>\<close>: \<open>body\<close> is set in Arial
  and the \<open>article\<close> in Georgia; neither has a text node among its children.
\<close>

definition ELEMENT_NODE :: nat where
  "ELEMENT_NODE = 1"

definition article_element :: element where
  "article_element =
     \<lparr>tagName = ''ARTICLE'', textContent = ''Hello'', childNodes = [Node ELEMENT_NODE ''Hello''],
      computedStyle = style_of_font ''Georgia, serif'' ''20px'' ''30px''\<rparr>"

definition body_element :: element where
  "body_element =
     \<lparr>tagName = ''BODY'', textContent = ''Hello'', childNodes = [Node ELEMENT_NODE ''Hello''],
      computedStyle = style_of_font ''Arial, sans-serif'' ''16px'' ''24px''\<rparr>"

definition article_page :: document where
  "article_page =
     \<lparr>querySelector =
        (\<lambda>selector. if selector = ''body'' then Some body_element
                    else if selector = ''article'' then Some article_element
                    else None),
      body = Some body_element\<rparr>"

section \<open>Properties\<close>

lemma startsWith_iff: "startsWith s t \<longleftrightarrow> (\<exists>post. s = t @ post)"
  unfolding startsWith_def
  by (metis append_eq_conv_conj append_take_drop_id)

lemma includes_str_iff: "includes_str s t \<longleftrightarrow> (\<exists>pre post. s = pre @ t @ post)"
proof (induction s)
  case Nil
  then show ?case by auto
next
  case (Cons c cs)
  show ?case
  proof
    assume "includes_str (c # cs) t"
    then consider "startsWith (c # cs) t" | "includes_str cs t" by auto
    then show "\<exists>pre post. c # cs = pre @ t @ post"
    proof cases
      case 1
      then obtain post where "c # cs = t @ post" by (auto simp: startsWith_iff)
      then have "c # cs = [] @ t @ post" by simp
      then show ?thesis by blast
    next
      case 2
      then obtain pre post where "cs = pre @ t @ post" using Cons.IH by auto
      then have "c # cs = (c # pre) @ t @ post" by simp
      then show ?thesis by blast
    qed
  next
    assume "\<exists>pre post. c # cs = pre @ t @ post"
    then obtain pre post where eq: "c # cs = pre @ t @ post" by auto
    show "includes_str (c # cs) t"
    proof (cases pre)
      case Nil
      then have "startsWith (c # cs) t" using eq by (auto simp: startsWith_iff)
      then show ?thesis by simp
    next
      case (Cons p ps)
      then have "cs = ps @ t @ post" using eq by simp
      then have "includes_str cs t" using Cons.IH by blast
      then show ?thesis by simp
    qed
  qed
qed

subsection \<open>Strings\<close>

lemma includes_toLowerCase:
  "includes_str (toLowerCase s) tok \<longleftrightarrow> contains_ci s tok"
proof
  assume "includes_str (toLowerCase s) tok"
  then obtain pre post where "map toLowerCase_char s = pre @ tok @ post"
    by (auto simp: includes_str_iff toLowerCase_def)
  then obtain a r where 1: "s = a @ r" "map toLowerCase_char r = tok @ post"
    by (metis map_eq_append_conv)
  then obtain b c where "r = b @ c" "map toLowerCase_char b = tok"
    by (metis map_eq_append_conv)
  with 1 have "s = a @ b @ c" "map toLowerCase_char b = tok" by auto
  then show "contains_ci s tok" by (auto simp: contains_ci_def toLowerCase_def)
next
  assume "contains_ci s tok"
  then obtain pre mid post where "s = pre @ mid @ post" "toLowerCase mid = tok"
    by (auto simp: contains_ci_def)
  then have "toLowerCase s = toLowerCase pre @ tok @ toLowerCase post"
    by (auto simp: toLowerCase_def)
  then show "includes_str (toLowerCase s) tok"
    unfolding includes_str_iff by blast
qed

subsection \<open>isValidColor\<close>

text \<open>
  C5, as stated, fails: the claim has \<open>isValidColor\<close> reject every fully transparent
  \<open>rgba\<close> value, but the code compares with the one string \<open>rgba(0, 0, 0, 0)\<close> (what a
  browser computes for \<open>transparent\<close>). A red with alpha 0 is accepted.
\<close>

theorem isValidColor_transparent_red_accepted:
  "isValidColor ''rgba(255, 0, 0, 0)'' = True"
  by (simp add: isValidColor_def)

text \<open>
  C5, amended: \<open>isValidColor\<close> returns false for the empty string and for exactly the four
  strings \<open>transparent\<close>, \<open>rgba(0, 0, 0, 0)\<close>, \<open>initial\<close> and \<open>inherit\<close>, and true for
  every other string.
\<close>

theorem isValidColor_iff:
  "isValidColor c \<longleftrightarrow>
     c \<noteq> [] \<and> c \<noteq> ''transparent'' \<and> c \<noteq> ''rgba(0, 0, 0, 0)'' \<and>
     c \<noteq> ''initial'' \<and> c \<noteq> ''inherit''"
  by (simp add: isValidColor_def)

subsection \<open>categorizeBySelector\<close>

text \<open>
  C3, as stated, fails for the type \<open>'background'\<close>: the claim routes a background colour
  to Primary when the selector contains any of the five tokens, but the code tests only
  \<open>btn\<close>, \<open>button\<close> and \<open>primary\<close> there. The selector \<open>.nav-link\<close> contains \<open>link\<close> and
  is categorised Background.
\<close>

theorem categorizeBySelector_link_background:
  "contains_ci ''.nav-link'' ''link'' \<and>
   categorizeBySelector ''.nav-link'' ''background'' = Background"
  unfolding includes_toLowerCase[symmetric]
  by (simp add: categorizeBySelector_def toLowerCase_def toLowerCase_char_def startsWith_def
      upper_letters_def lower_letters_def)

text \<open>
  C3, amended: with type \<open>'background'\<close> the result is Primary exactly when the selector
  contains \<open>btn\<close>, \<open>button\<close> or \<open>primary\<close> as a case-insensitive substring, else
  Background; with type \<open>'text'\<close> it is Accent exactly when the selector contains one of
  \<open>btn\<close>, \<open>button\<close>, \<open>primary\<close>, \<open>link\<close>, \<open>accent\<close>, else Foreground.
\<close>

theorem categorizeBySelector_tokens:
  "categorizeBySelector sel ''background'' =
     (if contains_ci sel ''btn'' \<or> contains_ci sel ''button'' \<or> contains_ci sel ''primary''
      then Primary else Background) \<and>
   categorizeBySelector sel ''text'' =
     (if contains_ci sel ''btn'' \<or> contains_ci sel ''button'' \<or> contains_ci sel ''primary'' \<or>
         contains_ci sel ''link'' \<or> contains_ci sel ''accent''
      then Accent else Foreground)"
  by (auto simp: categorizeBySelector_def includes_toLowerCase)

subsection \<open>buildColorPalette\<close>

lemma fold_push_item:
  "fold (push_item l) items (res, seen) =
     (res @ fresh_entries l seen items, seen \<union> item_hex ` set items)"
  by (induction items arbitrary: res seen) (auto simp: push_item_def)

lemma fresh_entries_hex:
  "entry_hex ` set (fresh_entries l seen items) \<subseteq> item_hex ` set items - seen"
  by (induction items arbitrary: seen) (auto simp: palette_entry_of_def)

lemma fresh_entries_distinct: "distinct (map entry_hex (fresh_entries l seen items))"
proof (induction items arbitrary: seen)
  case Nil
  then show ?case by simp
next
  case (Cons i "is")
  have "entry_hex (palette_entry_of l i) \<notin> entry_hex ` set (fresh_entries l (insert (item_hex i) seen) is)"
    using fresh_entries_hex[of l "insert (item_hex i) seen" "is"]
    by (auto simp: palette_entry_of_def)
  with Cons show ?case by auto
qed

lemma fresh_entries_category:
  "e \<in> set (fresh_entries l seen items) \<Longrightarrow> entry_category e = l"
  by (induction items arbitrary: seen) (auto simp: palette_entry_of_def split: if_splits)




lemma sort_by_weight_desc_set: "set (sort_by_weight_desc items) = set items"
  by (simp add: sort_by_weight_desc_def)

lemma push_category_eq:
  "push_category cs (k, category_label k) (res, seen) =
     (res @ segment cs k seen, seen \<union> hexes (colors_get cs k))"
  by (simp add: push_category_def fold_push_item segment_def hexes_def sort_by_weight_desc_set)

lemma labels [simp]:
  "category_label Primary = ''Primary''" "category_label Accent = ''Accent''"
  "category_label Background = ''Background''" "category_label Foreground = ''Foreground''"
  "category_label Border = ''Border''"
  by (simp_all add: category_label_def categories_def)

lemma ranks [simp]:
  "category_rank Primary = 0" "category_rank Accent = 1"
  "category_rank Background = 2" "category_rank Foreground = 3"
  "category_rank Border = 4"
  by (simp_all add: category_rank_def categories_def)

lemma label_ranks [simp]:
  "label_rank ''Primary'' = 0" "label_rank ''Accent'' = 1"
  "label_rank ''Background'' = 2" "label_rank ''Foreground'' = 3"
  "label_rank ''Border'' = 4"
  by (simp_all add: label_rank_def categories_def)

lemma fold_categories_eq:
  "fold (push_category cs) categories ([], {}) =
     (all_entries cs,
      hexes (primary cs) \<union> hexes (accent cs) \<union> hexes (background cs) \<union> hexes (foreground cs)
        \<union> hexes (border cs))"
proof -
  have c: "categories = [(Primary, category_label Primary), (Accent, category_label Accent),
      (Background, category_label Background), (Foreground, category_label Foreground),
      (Border, category_label Border)]"
    by (simp add: categories_def)
  show ?thesis
    unfolding c all_entries_def
    by (simp add: push_category_eq del: labels)
qed

lemma buildColorPalette_eq: "buildColorPalette cs = take 20 (all_entries cs)"
  by (simp add: buildColorPalette_def fold_categories_eq)

lemma segment_hex: "entry_hex ` set (segment cs k seen) \<subseteq> hexes (colors_get cs k) - seen"
  using fresh_entries_hex[of "category_label k" seen "sort_by_weight_desc (map_values (colors_get cs k))"]
  by (simp add: segment_def hexes_def sort_by_weight_desc_set)

lemma segment_distinct: "distinct (map entry_hex (segment cs k seen))"
  by (simp add: segment_def fresh_entries_distinct)

lemma segment_category: "e \<in> set (segment cs k seen) \<Longrightarrow> entry_category e = category_label k"
  by (auto simp: segment_def dest: fresh_entries_category)


lemma distinct_append_segment:
  assumes "distinct (map entry_hex res)" "entry_hex ` set res \<subseteq> seen"
  shows "distinct (map entry_hex (res @ segment cs k seen))"
proof -
  have "entry_hex ` set (segment cs k seen) \<inter> seen = {}"
    using segment_hex[of cs k seen] by blast
  then have "entry_hex ` set res \<inter> entry_hex ` set (segment cs k seen) = {}"
    using assms(2) by blast
  with assms(1) show ?thesis by (simp add: segment_distinct)
qed

lemma hexes_append_segment:
  assumes "entry_hex ` set res \<subseteq> seen"
  shows "entry_hex ` set (res @ segment cs k seen) \<subseteq> seen \<union> hexes (colors_get cs k)"
  using segment_hex[of cs k seen] assms by auto

lemma all_entries_distinct: "distinct (map entry_hex (all_entries cs))"
proof -
  let ?s1 = "hexes (primary cs)"
  let ?s2 = "?s1 \<union> hexes (accent cs)"
  let ?s3 = "?s2 \<union> hexes (background cs)"
  let ?s4 = "?s3 \<union> hexes (foreground cs)"
  let ?r1 = "[] @ segment cs Primary {}"
  let ?r2 = "?r1 @ segment cs Accent ?s1"
  let ?r3 = "?r2 @ segment cs Background ?s2"
  let ?r4 = "?r3 @ segment cs Foreground ?s3"
  let ?r5 = "?r4 @ segment cs Border ?s4"
  have d1: "distinct (map entry_hex ?r1)" by (rule distinct_append_segment) simp_all
  have h1: "entry_hex ` set ?r1 \<subseteq> ?s1"
    using hexes_append_segment[of "[]" "{}" cs Primary] by simp
  have d2: "distinct (map entry_hex ?r2)" by (rule distinct_append_segment[OF d1 h1])
  have h2: "entry_hex ` set ?r2 \<subseteq> ?s2"
    using hexes_append_segment[OF h1, of cs Accent] by simp
  have d3: "distinct (map entry_hex ?r3)" by (rule distinct_append_segment[OF d2 h2])
  have h3: "entry_hex ` set ?r3 \<subseteq> ?s3"
    using hexes_append_segment[OF h2, of cs Background] by simp
  have d4: "distinct (map entry_hex ?r4)" by (rule distinct_append_segment[OF d3 h3])
  have h4: "entry_hex ` set ?r4 \<subseteq> ?s4"
    using hexes_append_segment[OF h3, of cs Foreground] by simp
  have d5: "distinct (map entry_hex ?r5)" by (rule distinct_append_segment[OF d4 h4])
  have e: "?r5 = all_entries cs" by (simp add: all_entries_def)
  show ?thesis using d5 by (simp only: e)
qed

lemma all_entries_priority:
  assumes "e \<in> set (all_entries cs)"
  shows "\<exists>k. entry_category e = category_label k \<and> entry_hex e \<in> hexes (colors_get cs k) \<and>
             (\<forall>k'. category_rank k' < category_rank k \<longrightarrow> entry_hex e \<notin> hexes (colors_get cs k'))"
proof -
  have rk: "\<And>k' P. (\<forall>k'. P k') = (P Primary \<and> P Accent \<and> P Background \<and> P Foreground \<and> P Border)"
    by (metis category.exhaust)
  from assms consider
      "e \<in> set (segment cs Primary {})"
    | "e \<in> set (segment cs Accent (hexes (primary cs)))"
    | "e \<in> set (segment cs Background (hexes (primary cs) \<union> hexes (accent cs)))"
    | "e \<in> set (segment cs Foreground (hexes (primary cs) \<union> hexes (accent cs) \<union> hexes (background cs)))"
    | "e \<in> set (segment cs Border (hexes (primary cs) \<union> hexes (accent cs) \<union> hexes (background cs) \<union> hexes (foreground cs)))"
    by (auto simp: all_entries_def)
  then show ?thesis
  proof cases
    case 1
    then have "entry_category e = category_label Primary" "entry_hex e \<in> hexes (colors_get cs Primary)"
      using segment_hex[of cs Primary "{}"] by (auto dest: segment_category)
    then show ?thesis by (intro exI[of _ Primary]) (simp add: rk)
  next
    case 2
    then have "entry_category e = category_label Accent" "entry_hex e \<in> hexes (colors_get cs Accent)"
      "entry_hex e \<notin> hexes (primary cs)"
      using segment_hex[of cs Accent "hexes (primary cs)"] by (auto dest: segment_category)
    then show ?thesis by (intro exI[of _ Accent]) (simp add: rk)
  next
    case 3
    then have "entry_category e = category_label Background" "entry_hex e \<in> hexes (colors_get cs Background)"
      "entry_hex e \<notin> hexes (primary cs) \<union> hexes (accent cs)"
      using segment_hex[of cs Background "hexes (primary cs) \<union> hexes (accent cs)"] by (auto dest: segment_category)
    then show ?thesis by (intro exI[of _ Background]) (simp add: rk)
  next
    case 4
    then have "entry_category e = category_label Foreground" "entry_hex e \<in> hexes (colors_get cs Foreground)"
      "entry_hex e \<notin> hexes (primary cs) \<union> hexes (accent cs) \<union> hexes (background cs)"
      using segment_hex[of cs Foreground "hexes (primary cs) \<union> hexes (accent cs) \<union> hexes (background cs)"] by (auto dest: segment_category)
    then show ?thesis by (intro exI[of _ Foreground]) (simp add: rk)
  next
    case 5
    then have "entry_category e = category_label Border" "entry_hex e \<in> hexes (colors_get cs Border)"
      "entry_hex e \<notin> hexes (primary cs) \<union> hexes (accent cs) \<union> hexes (background cs) \<union> hexes (foreground cs)"
      using segment_hex[of cs Border "hexes (primary cs) \<union> hexes (accent cs) \<union> hexes (background cs) \<union> hexes (foreground cs)"] by (auto dest: segment_category)
    then show ?thesis by (intro exI[of _ Border]) (simp add: rk)
  qed
qed


lemma demo_palette:
  "buildColorPalette demo_colors =
     [\<lparr>entry_hex = ''#3366FF'', entry_category = ''Primary'', entry_weight = 101,
       entry_sources = ''.btn-primary, button''\<rparr>,
      \<lparr>entry_hex = ''#FF6600'', entry_category = ''Primary'', entry_weight = 1,
       entry_sources = ''.btn-alt''\<rparr>,
      \<lparr>entry_hex = ''#FFFFFF'', entry_category = ''Background'', entry_weight = 500,
       entry_sources = ''body''\<rparr>,
      \<lparr>entry_hex = ''#222222'', entry_category = ''Foreground'', entry_weight = 1000,
       entry_sources = ''body''\<rparr>]"
  by (simp add: buildColorPalette_def demo_colors_def categories_def push_category_def
      push_item_def sort_by_weight_desc_def map_values_def palette_entry_of_def)

text \<open>
  C1: in every output of \<open>buildColorPalette\<close> no hex value occurs twice; every entry
  carries the label of a category whose map holds its hex, and no category of higher
  priority (Primary, Accent, Background, Foreground, Border, in this order) holds that
  hex; in particular an entry whose hex is in the Primary map is labelled Primary.
\<close>

theorem palette_dedup_priority:
  "distinct (map entry_hex (buildColorPalette cs)) \<and>
   (\<forall>e \<in> set (buildColorPalette cs).
      \<exists>k. entry_category e = category_label k \<and> entry_hex e \<in> hexes (colors_get cs k) \<and>
          (\<forall>k'. category_rank k' < category_rank k \<longrightarrow> entry_hex e \<notin> hexes (colors_get cs k'))) \<and>
   (\<forall>e \<in> set (buildColorPalette cs).
      entry_hex e \<in> hexes (primary cs) \<longrightarrow> entry_category e = ''Primary'')"
proof (intro conjI ballI impI)
  show "distinct (map entry_hex (buildColorPalette cs))"
    unfolding buildColorPalette_eq using all_entries_distinct[of cs]
    by (simp add: take_map[symmetric] distinct_take del: take_map)
next
  fix e assume "e \<in> set (buildColorPalette cs)"
  then have "e \<in> set (all_entries cs)"
    unfolding buildColorPalette_eq by (rule in_set_takeD)
  then show "\<exists>k. entry_category e = category_label k \<and> entry_hex e \<in> hexes (colors_get cs k) \<and>
          (\<forall>k'. category_rank k' < category_rank k \<longrightarrow> entry_hex e \<notin> hexes (colors_get cs k'))"
    by (rule all_entries_priority)
next
  fix e assume m: "e \<in> set (buildColorPalette cs)" and p: "entry_hex e \<in> hexes (primary cs)"
  from m have "e \<in> set (all_entries cs)"
    unfolding buildColorPalette_eq by (rule in_set_takeD)
  then obtain k where k: "entry_category e = category_label k"
      "\<forall>k'. category_rank k' < category_rank k \<longrightarrow> entry_hex e \<notin> hexes (colors_get cs k')"
    using all_entries_priority by blast
  have "k = Primary"
  proof (rule ccontr)
    assume "k \<noteq> Primary"
    then have "category_rank Primary < category_rank k" by (cases k) simp_all
    with k(2) have "entry_hex e \<notin> hexes (colors_get cs Primary)" by blast
    with p show False by simp
  qed
  with k(1) show "entry_category e = ''Primary''" by simp
qed

theorem palette_dedup_priority_witness:
  "\<lparr>entry_hex = ''#3366FF'', entry_category = ''Primary'', entry_weight = 101,
     entry_sources = ''.btn-primary, button''\<rparr> \<in> set (buildColorPalette demo_colors) \<and>
   ''#3366FF'' \<in> hexes (primary demo_colors) \<and>
   ''#3366FF'' \<in> hexes (background demo_colors) \<and>
   distinct (map entry_hex (buildColorPalette demo_colors)) \<and>
   [e \<leftarrow> buildColorPalette demo_colors. entry_hex e = ''#3366FF''] =
     [\<lparr>entry_hex = ''#3366FF'', entry_category = ''Primary'', entry_weight = 101,
       entry_sources = ''.btn-primary, button''\<rparr>]"
proof -
  let ?e = "\<lparr>entry_hex = ''#3366FF'', entry_category = ''Primary'', entry_weight = 101,
     entry_sources = ''.btn-primary, button''\<rparr>"
  have 1: "?e \<in> set (buildColorPalette demo_colors)" by (simp add: demo_palette)
  have 2: "''#3366FF'' \<in> hexes (primary demo_colors)"
    by (simp add: hexes_def demo_colors_def map_values_def)
  have 3: "''#3366FF'' \<in> hexes (background demo_colors)"
    by (simp add: hexes_def demo_colors_def map_values_def)
  have 4: "distinct (map entry_hex (buildColorPalette demo_colors))"
    using palette_dedup_priority[of demo_colors] by blast
  have 5: "[e \<leftarrow> buildColorPalette demo_colors. entry_hex e = ''#3366FF''] = [?e]"
    by (simp add: demo_palette)
  from 1 2 3 4 5 show ?thesis by blast
qed





subsection \<open>getInlineSvgs\<close>

lemma getSvgInfo_Some:
  "getSvgInfo ser mk (Some el) isLogo \<noteq> None"
  by (simp add: getSvgInfo_def Let_def)

lemma inline_svg_step_eq:
  "inline_svg_step ser mk svg acc =
     (if 5 \<le> rect_width svg \<or> 5 \<le> rect_height svg
      then acc @ [the (getSvgInfo ser mk (Some svg) False)] else acc)"
proof -
  obtain info where "getSvgInfo ser mk (Some svg) False = Some info"
    using getSvgInfo_Some[of ser mk svg False] by blast
  then show ?thesis
    by (auto simp: inline_svg_step_def not_less)
qed

lemma fold_inline_svg_step:
  "fold (inline_svg_step ser mk) svgs acc =
     acc @ map (\<lambda>svg. the (getSvgInfo ser mk (Some svg) False))
             (filter (\<lambda>svg. 5 \<le> rect_width svg \<or> 5 \<le> rect_height svg) svgs)"
  by (induction svgs arbitrary: acc) (simp_all add: inline_svg_step_eq)

text \<open>
  C8, as stated, fails: the claim excludes every \<open>svg\<close> with a dimension below 5, but the
  code skips an element only when both its width and its height are below 5. An \<open>svg\<close> of
  3 by 100 pixels is included.
\<close>

theorem getInlineSvgs_thin_cex:
  "rect_width thin_svg < 5 \<and>
   map (\<lambda>i. (info_width i, info_height i))
     (getInlineSvgs demo_serializeToString demo_createObjectURL [thin_svg]) =
     [(DimNumber 3, DimNumber 100)]"
  by code_simp

text \<open>
  C8, amended: \<open>getInlineSvgs\<close> returns the info of exactly the \<open>svg\<close> elements whose
  bounding box is at least 5 wide or at least 5 high, in document order; an element is
  excluded exactly when both dimensions are below 5.
\<close>

theorem getInlineSvgs_filter:
  "map Some (getInlineSvgs ser mk svgs) =
     map (\<lambda>svg. getSvgInfo ser mk (Some svg) False)
       (filter (\<lambda>svg. 5 \<le> rect_width svg \<or> 5 \<le> rect_height svg) svgs)"
proof -
  have "\<And>svg. Some (the (getSvgInfo ser mk (Some svg) False)) = getSvgInfo ser mk (Some svg) False"
    using getSvgInfo_Some by simp
  then show ?thesis
    by (simp add: getInlineSvgs_def fold_inline_svg_step comp_def)
qed

subsection \<open>isNeutral and the key-element pass\<close>

lemma map_set_keys: "map_keys (map_set m k v) = insert k (map_keys m)"
  unfolding map_keys_def
  by (induction m k v rule: map_set.induct) (simp_all add: insert_commute)

lemma addColor_keys:
  "map_keys (addColor m hex src w) =
     (if falsy hex then map_keys m else insert (the hex) (map_keys m))"
  by (auto simp: addColor_def falsy_def map_set_keys split: option.splits)

lemma forEach_invariant:
  assumes "forEach f xs s = Some s'" and "P s"
    and "\<And>x t t'. x \<in> set xs \<Longrightarrow> P t \<Longrightarrow> f x t = Some t' \<Longrightarrow> P t'"
  shows "P s'"
  using assms
proof (induction xs arbitrary: s)
  case Nil
  then show ?case by simp
next
  case (Cons x xs)
  from Cons.prems(1) obtain t where t: "f x s = Some t" "forEach f xs t = Some s'"
    by (auto split: option.splits)
  have "P t" using Cons.prems(2,3) t(1) by auto
  then show ?case using Cons.IH[OF t(2)] Cons.prems(3) by auto
qed

lemma body_step_frame:
  "body_step f st cs = Some cs' \<Longrightarrow> primary cs' = primary cs \<and> accent cs' = accent cs"
  by (auto simp: body_step_def Let_def split: Option.bind_splits if_splits)

lemma html_step_frame:
  "html_step f st cs = Some cs' \<Longrightarrow> primary cs' = primary cs \<and> accent cs' = accent cs"
  by (auto simp: html_step_def Let_def split: Option.bind_splits if_splits)

lemma heading_step_frame:
  "heading_step f h cs = Some cs' \<Longrightarrow> primary cs' = primary cs \<and> accent cs' = accent cs"
  by (auto simp: heading_step_def Let_def split: Option.bind_splits if_splits prod.splits)

lemma container_step_frame:
  "container_step f h cs = Some cs' \<Longrightarrow> primary cs' = primary cs \<and> accent cs' = accent cs"
  by (auto simp: container_step_def Let_def split: Option.bind_splits if_splits prod.splits)

lemma input_step_frame:
  "input_step f st cs = Some cs' \<Longrightarrow> primary cs' = primary cs \<and> accent cs' = accent cs"
  by (auto simp: input_step_def Let_def split: Option.bind_splits if_splits)

lemma button_step_keys:
  assumes "button_step f st cs = Some cs'"
  shows "map_keys (primary cs') \<subseteq> map_keys (primary cs) \<union>
           {h. toHex f (style_backgroundColor st) = Some (Some h) \<and> \<not> isNeutral (Some h)}"
    and "map_keys (accent cs') \<subseteq> map_keys (accent cs) \<union>
           {h. toHex f (style_color st) = Some (Some h) \<and> \<not> isNeutral (Some h)}"
  using assms
  by (auto simp: button_step_def Let_def addColor_keys falsy_def
      split: Option.bind_splits if_splits option.splits)

lemma link_step_colors:
  assumes "link_step f st lc = Some lc'"
  shows "set lc' \<subseteq> set lc \<union>
           {h. toHex f (style_color st) = Some (Some h) \<and> \<not> isNeutral (Some h)}"
  using assms
  by (auto simp: link_step_def set_add_def falsy_def split: Option.bind_splits if_splits option.splits)

lemma fold_link_color_step:
  "primary (fold link_color_step lc cs) = primary cs \<and>
   map_keys (accent (fold link_color_step lc cs)) \<subseteq> map_keys (accent cs) \<union> set lc"
proof (induction lc arbitrary: cs)
  case Nil
  then show ?case by simp
next
  case (Cons a lc)
  let ?cs = "link_color_step a cs"
  have 1: "primary ?cs = primary cs" by (simp add: link_color_step_def)
  have 2: "map_keys (accent ?cs) \<subseteq> insert a (map_keys (accent cs))"
    by (auto simp: link_color_step_def addColor_keys falsy_def split: if_splits)
  from Cons.IH[of ?cs] 1 2 show ?case by auto
qed

lemma analyzeKeyElements_keys:
  assumes "analyzeKeyElements f doc cs = Some cs'"
  shows "map_keys (primary cs') \<subseteq> map_keys (primary cs) \<union>
           {h. \<exists>st \<in> set (doc_buttons doc).
                 toHex f (style_backgroundColor st) = Some (Some h) \<and> \<not> isNeutral (Some h)}"
        (is "_ \<subseteq> _ \<union> ?Gp")
    and "map_keys (accent cs') \<subseteq> map_keys (accent cs) \<union>
           {h. \<exists>st \<in> set (doc_buttons doc) \<union> set (doc_links doc).
                 toHex f (style_color st) = Some (Some h) \<and> \<not> isNeutral (Some h)}"
        (is "_ \<subseteq> _ \<union> ?Ga")
proof -
  let ?I = "\<lambda>c. map_keys (primary c) \<subseteq> map_keys (primary cs) \<union> ?Gp \<and>
                 map_keys (accent c) \<subseteq> map_keys (accent cs) \<union> ?Ga"
  from assms obtain c1 c2 c3 lc c5 c6 where
    s1: "(case doc_body doc of None \<Rightarrow> Some cs | Some st \<Rightarrow> body_step f st cs) = Some c1" and
    s2: "(case doc_documentElement doc of None \<Rightarrow> Some c1 | Some st \<Rightarrow> html_step f st c1) = Some c2" and
    s3: "forEach (button_step f) (doc_buttons doc) c2 = Some c3" and
    s4: "forEach (link_step f) (doc_links doc) [] = Some lc" and
    s5: "forEach (heading_step f) (doc_headings doc) (fold link_color_step lc c3) = Some c5" and
    s6: "forEach (container_step f) (doc_containers doc) c5 = Some c6" and
    s7: "forEach (input_step f) (doc_inputs doc) c6 = Some cs'"
    unfolding analyzeKeyElements_def
    by (auto simp: Let_def split: Option.bind_splits)
  have i1: "?I c1" using s1 by (auto split: option.splits dest: body_step_frame)
  have i2: "?I c2" using s2 i1 by (auto split: option.splits dest!: html_step_frame)
  have i3: "?I c3"
  proof (rule forEach_invariant[OF s3, where P = ?I])
    show "?I c2" by (rule i2)
  next
    fix x t t' assume x: "x \<in> set (doc_buttons doc)" and t: "?I t" and st: "button_step f x t = Some t'"
    from button_step_keys[OF st] x t show "?I t'" by blast
  qed
  have l: "set lc \<subseteq> ?Ga"
  proof (rule forEach_invariant[OF s4, where P = "\<lambda>l. set l \<subseteq> ?Ga"])
    show "set [] \<subseteq> ?Ga" by simp
  next
    fix x t t' assume x: "x \<in> set (doc_links doc)" and t: "set t \<subseteq> ?Ga" and st: "link_step f x t = Some t'"
    from link_step_colors[OF st] x t show "set t' \<subseteq> ?Ga" by blast
  qed
  have i4: "?I (fold link_color_step lc c3)"
    using fold_link_color_step[of lc c3] i3 l by auto
  have i5: "?I c5"
    by (rule forEach_invariant[OF s5, where P = ?I]) (use i4 in \<open>auto dest!: heading_step_frame\<close>)
  have i6: "?I c6"
    by (rule forEach_invariant[OF s6, where P = ?I]) (use i5 in \<open>auto dest!: container_step_frame\<close>)
  have i7: "?I cs'"
    by (rule forEach_invariant[OF s7, where P = ?I]) (use i6 in \<open>auto dest!: input_step_frame\<close>)
  from i7 show "map_keys (primary cs') \<subseteq> map_keys (primary cs) \<union> ?Gp"
    and "map_keys (accent cs') \<subseteq> map_keys (accent cs) \<union> ?Ga" by blast+
qed


lemma demo_key_eval:
  "analyzeKeyElements no_canvas demo_key_elements empty_colors = Some demo_key_result"
  by code_simp

lemma demo_failed_eval:
  "toHex no_canvas ''color(display-p3 1 0 0)'' = Some None"
  "toHex no_canvas ''color(display-p3 0 1 0)'' = Some None"
  by code_simp+

text \<open>
  C10: \<open>isNeutral\<close> is true for \<open>null\<close> and for the empty string; a button or link whose
  colours fail to normalise leaves the maps as they are; and every key that
  \<open>analyzeKeyElements\<close> adds to the Primary map (to the Accent map) is the hex that
  \<open>toHex\<close> returned for the background of a button (for the text colour of a button or a
  link), and is not neutral.
\<close>

theorem failed_normalisation_not_primary_accent:
  "isNeutral None \<and> isNeutral (Some []) \<and>
   (toHex f (style_backgroundColor st) = Some None \<and> toHex f (style_color st) = Some None
      \<longrightarrow> button_step f st c = Some c \<and> link_step f st lc = Some lc) \<and>
   (analyzeKeyElements f doc cs = Some cs' \<longrightarrow>
      (\<forall>h \<in> map_keys (primary cs') - map_keys (primary cs).
         \<exists>st \<in> set (doc_buttons doc).
           toHex f (style_backgroundColor st) = Some (Some h) \<and> \<not> isNeutral (Some h)) \<and>
      (\<forall>h \<in> map_keys (accent cs') - map_keys (accent cs).
         \<exists>st \<in> set (doc_buttons doc) \<union> set (doc_links doc).
           toHex f (style_color st) = Some (Some h) \<and> \<not> isNeutral (Some h)))"
proof (intro conjI impI)
  show "isNeutral None" "isNeutral (Some [])" by (simp_all add: isNeutral_def falsy_def)
next
  assume "toHex f (style_backgroundColor st) = Some None \<and> toHex f (style_color st) = Some None"
  then show "button_step f st c = Some c" "link_step f st lc = Some lc"
    by (simp_all add: button_step_def link_step_def falsy_def)
next
  assume a: "analyzeKeyElements f doc cs = Some cs'"
  from analyzeKeyElements_keys(1)[OF a]
  show "\<forall>h \<in> map_keys (primary cs') - map_keys (primary cs).
         \<exists>st \<in> set (doc_buttons doc).
           toHex f (style_backgroundColor st) = Some (Some h) \<and> \<not> isNeutral (Some h)"
    by blast
  from analyzeKeyElements_keys(2)[OF a]
  show "\<forall>h \<in> map_keys (accent cs') - map_keys (accent cs).
         \<exists>st \<in> set (doc_buttons doc) \<union> set (doc_links doc).
           toHex f (style_color st) = Some (Some h) \<and> \<not> isNeutral (Some h)"
    by blast
qed

theorem failed_normalisation_not_primary_accent_witness:
  "toHex no_canvas ''color(display-p3 1 0 0)'' = Some None \<and>
   toHex no_canvas ''color(display-p3 0 1 0)'' = Some None \<and>
   button_step no_canvas (style_of_colors ''color(display-p3 1 0 0)'' ''color(display-p3 0 1 0)'')
     demo_key_result = Some demo_key_result \<and>
   analyzeKeyElements no_canvas demo_key_elements empty_colors = Some demo_key_result \<and>
   ''#3366FF'' \<in> map_keys (primary demo_key_result) - map_keys (primary empty_colors) \<and>
   (\<exists>st \<in> set (doc_buttons demo_key_elements).
      toHex no_canvas (style_backgroundColor st) = Some (Some ''#3366FF'') \<and>
      \<not> isNeutral (Some ''#3366FF''))"
proof -
  let ?st = "style_of_colors ''color(display-p3 1 0 0)'' ''color(display-p3 0 1 0)''"
  note T = failed_normalisation_not_primary_accent
      [where f = no_canvas and st = ?st and c = demo_key_result and doc = demo_key_elements
         and cs = empty_colors and cs' = demo_key_result]
  have f: "toHex no_canvas (style_backgroundColor ?st) = Some None \<and>
           toHex no_canvas (style_color ?st) = Some None"
    by (simp add: style_of_colors_def demo_failed_eval)
  have m: "''#3366FF'' \<in> map_keys (primary demo_key_result) - map_keys (primary empty_colors)"
    by (simp add: map_keys_def demo_key_result_def empty_colors_def)
  from T f have 1: "button_step no_canvas ?st demo_key_result = Some demo_key_result" by blast
  from T demo_key_eval m have 2: "\<exists>st \<in> set (doc_buttons demo_key_elements).
      toHex no_canvas (style_backgroundColor st) = Some (Some ''#3366FF'') \<and>
      \<not> isNeutral (Some ''#3366FF'')" by blast
  from demo_failed_eval 1 demo_key_eval m 2 show ?thesis by blast
qed

subsection \<open>Decimal digits: writing and reading back\<close>

lemma digit_facts:
  "\<forall>d \<in> set [0 ..< 10]. is_digit (digit_char d) \<and> digit_value (digit_char d) = Some d \<and>
      is_radix_digit 10 (digit_char d) \<and> \<not> is_space (digit_char d) \<and> digit_char d \<noteq> CHR ''-'' \<and>
      digit_char d \<noteq> CHR ''+'' \<and> digit_char d \<noteq> CHR ''.'' \<and> digit_char d \<noteq> CHR ''x'' \<and>
      digit_char d \<noteq> CHR ''X'' \<and> digit_char d \<noteq> CHR ''I''"
  by code_simp

lemma digit_char_props:
  assumes "d < 10"
  shows "is_digit (digit_char d)" "digit_value (digit_char d) = Some d"
    "is_radix_digit 10 (digit_char d)" "\<not> is_space (digit_char d)"
    "digit_char d \<noteq> CHR ''-''" "digit_char d \<noteq> CHR ''+''" "digit_char d \<noteq> CHR ''.''"
    "digit_char d \<noteq> CHR ''x''" "digit_char d \<noteq> CHR ''X''" "digit_char d \<noteq> CHR ''I''"
  using digit_facts assms by auto

lemma nat_toString_small: "n < r \<Longrightarrow> nat_toString r n = [digit_char n]"
  by (subst nat_toString.simps) simp

lemma nat_toString_big:
  "2 \<le> r \<Longrightarrow> r \<le> n \<Longrightarrow> nat_toString r n = nat_toString r (n div r) @ [digit_char (n mod r)]"
  by (subst nat_toString.simps) simp

lemma nat_toString_nonempty: "nat_toString r n \<noteq> []"
  by (subst nat_toString.simps) simp

lemma nat_toString_10_digits: "c \<in> set (nat_toString 10 n) \<Longrightarrow> \<exists>d < 10. c = digit_char d"
proof (induction n arbitrary: c rule: less_induct)
  case (less n)
  show ?case
  proof (cases "n < 10")
    case True
    with less.prems show ?thesis by (auto simp: nat_toString_small)
  next
    case False
    with less.prems have "c \<in> set (nat_toString 10 (n div 10)) \<or> c = digit_char (n mod 10)"
      by (auto simp: nat_toString_big)
    then show ?thesis
    proof
      assume "c \<in> set (nat_toString 10 (n div 10))"
      moreover have "n div 10 < n" using False by simp
      ultimately show ?thesis using less.IH by blast
    next
      assume "c = digit_char (n mod 10)"
      then show ?thesis by (intro exI[of _ "n mod 10"]) simp
    qed
  qed
qed

lemma foldl_digits_shift:
  "foldl (\<lambda>acc c. acc * r + the (digit_value c)) a ys =
     a * r ^ length ys + foldl (\<lambda>acc c. acc * r + the (digit_value c)) 0 ys"
proof (induction ys arbitrary: a)
  case Nil
  then show ?case by simp
next
  case (Cons y ys)
  let ?f = "\<lambda>acc c. acc * r + the (digit_value c)"
  let ?v = "the (digit_value y)"
  have 1: "foldl ?f (a * r + ?v) ys = (a * r + ?v) * r ^ length ys + foldl ?f 0 ys"
    by (rule Cons.IH)
  have 2: "foldl ?f ?v ys = ?v * r ^ length ys + foldl ?f 0 ys"
    by (rule Cons.IH)
  show ?case
    by (simp add: 1 2 algebra_simps)
qed

lemma digits_value_append:
  "digits_value r (xs @ ys) = digits_value r xs * r ^ length ys + digits_value r ys"
  unfolding digits_value_def foldl_append
  by (rule foldl_digits_shift)

lemma digits_value_single: "d < 10 \<Longrightarrow> digits_value r [digit_char d] = d"
  by (simp add: digits_value_def digit_char_props)

lemma digits_value_nat_toString: "digits_value 10 (nat_toString 10 n) = n"
proof (induction n rule: less_induct)
  case (less n)
  show ?case
  proof (cases "n < 10")
    case True
    then show ?thesis by (simp add: nat_toString_small digits_value_single)
  next
    case False
    then have "n div 10 < n" by simp
    then have "digits_value 10 (nat_toString 10 (n div 10)) = n div 10" by (rule less.IH)
    with False show ?thesis
      by (simp add: nat_toString_big digits_value_append digits_value_single)
  qed
qed


lemma all_digits_nat_toString: "all_digits (nat_toString 10 n)"
  unfolding all_digits_def list_all_iff
  using nat_toString_10_digits digit_char_props(1) by blast

lemma is_digit_props:
  assumes "is_digit c"
  shows "\<not> is_space c" "c \<noteq> CHR ''-''" "c \<noteq> CHR ''+''" "c \<noteq> CHR ''.''" "c \<noteq> CHR ''I''"
  using assms by (auto simp: is_digit_def is_space_def)

lemma takeWhile_digits:
  assumes "all_digits ip" "\<not> is_digit c"
  shows "takeWhile is_digit (ip @ c # rest) = ip" "dropWhile is_digit (ip @ c # rest) = c # rest"
  using assms by (simp_all add: all_digits_def list_all_iff takeWhile_append2 dropWhile_append2)

lemma takeWhile_all_digits:
  assumes "all_digits fp"
  shows "takeWhile is_digit fp = fp" "dropWhile is_digit fp = []"
  using assms by (simp_all add: all_digits_def list_all_iff)


lemma startsWith_Nil [simp]: "startsWith s []"
  by (simp add: startsWith_def)

lemma exponent_part_Nil: "exponent_part [] = 0"
  by (simp add: exponent_part_def startsWith_def)






subsection \<open>normalizeLineHeight\<close>





subsection \<open>analyzeFontFamilies\<close>
















subsection \<open>analyzeBodyText\<close>

lemma probe_none_qualifies:
  "list_all (\<lambda>s. \<not> qualifies doc s) selectors \<Longrightarrow>
     probe doc selectors element =
       (if selectors = [] then element else querySelector doc (last selectors))"
  by (induction selectors arbitrary: element)
     (auto simp: qualifies_def Let_def split: option.splits)

lemma probe_first_qualifying:
  "list_all (\<lambda>s. \<not> qualifies doc s) pre \<Longrightarrow> qualifies doc selector \<Longrightarrow>
     probe doc (pre @ selector # post) element = querySelector doc selector"
  by (induction pre arbitrary: element)
     (auto simp: qualifies_def Let_def split: option.splits)

text \<open>
  Which element the snapshot is taken from: the element of the first selector that
  qualifies; and when no selector qualifies, the element that the last selector,
  \<open>article\<close>, matches, \<open>document.body\<close> being used only when there is no \<open>article\<close>.
\<close>

theorem body_text_element_cases:
  "(body_selectors = pre @ selector # post \<and> list_all (\<lambda>s. \<not> qualifies doc s) pre \<and>
      qualifies doc selector \<longrightarrow>
        body_text_element doc = querySelector doc selector) \<and>
   (list_all (\<lambda>s. \<not> qualifies doc s) body_selectors \<longrightarrow>
      body_text_element doc =
        (case querySelector doc ''article'' of Some e \<Rightarrow> Some e | None \<Rightarrow> body doc))"
proof (intro conjI impI)
  assume a: "body_selectors = pre @ selector # post \<and> list_all (\<lambda>s. \<not> qualifies doc s) pre \<and>
      qualifies doc selector"
  then have "probe doc body_selectors None = querySelector doc selector"
    using probe_first_qualifying[of doc pre selector post None] by simp
  moreover have "querySelector doc selector \<noteq> None"
    using a by (auto simp: qualifies_def split: option.splits)
  ultimately show "body_text_element doc = querySelector doc selector"
    by (auto simp: body_text_element_def Let_def)
next
  assume "list_all (\<lambda>s. \<not> qualifies doc s) body_selectors"
  then have "probe doc body_selectors None = querySelector doc (last body_selectors)"
    using probe_none_qualifies[of doc body_selectors None] by (simp add: body_selectors_def)
  then show "body_text_element doc =
        (case querySelector doc ''article'' of Some e \<Rightarrow> Some e | None \<Rightarrow> body doc)"
    by (auto simp: body_text_element_def body_selectors_def Let_def split: option.splits)
qed

text \<open>
  C4 at the page \<^verbatim>\<open><body><article><span>Hello</span></article></body>\<close>: none of the five
  selectors matches an element with direct text, and the snapshot is taken from the
  \<open>article\<close> (Georgia, 20px), not from \<open>document.body\<close> (Arial, 16px).
\<close>

theorem analyzeBodyText_article_page:
  "\<not> qualifies article_page ''p'' \<and> \<not> qualifies article_page ''body'' \<and>
   \<not> qualifies article_page ''.content'' \<and> \<not> qualifies article_page ''main'' \<and>
   \<not> qualifies article_page ''article'' \<and>
   body article_page = Some body_element \<and>
   body_text_element article_page = Some article_element \<and>
   analyzeBodyText article_page =
     Inr \<lparr>snapshot_fontFamily = Some ''Georgia'', snapshot_fontSize = ''20px'',
          snapshot_fontWeight = ''400'', snapshot_lineHeight = ''1.50'',
          snapshot_color = ''#222222''\<rparr> \<and>
   snapshot_of (computedStyle body_element) =
     \<lparr>snapshot_fontFamily = Some ''Arial'', snapshot_fontSize = ''16px'',
      snapshot_fontWeight = ''400'', snapshot_lineHeight = ''1.50'',
      snapshot_color = ''#222222''\<rparr>"
  by code_simp

subsection \<open>toHex\<close>

lemma hex_digit_facts:
  "\<forall>c \<in> set ''0123456789abcdefABCDEF''. is_hex_upper (toUpperCase_char c) \<and> c \<noteq> CHR ''#''"
  by code_simp

lemma toUpperCase_hex_digit: "is_hex_digit c \<Longrightarrow> is_hex_upper (toUpperCase_char c)"
  using hex_digit_facts unfolding is_hex_digit_def by blast

lemma toHex_hash_branch:
  assumes "color = CHR ''#'' # ds"
  shows "toHex fillStyle color = Some (Some (toHex_hash color))"
proof -
  have "\<not> startsWith color ''rgb''" "\<not> startsWith color ''hsl''" "startsWith color ''#''"
    using assms by (simp_all add: startsWith_def)
  then show ?thesis
    using assms by (subst toHex.simps) simp
qed

lemma toHex_hex3:
  assumes "list_all is_hex_digit [a, b, c]"
  shows "toHex fillStyle [CHR ''#'', a, b, c] =
           Some (Some [CHR ''#'', toUpperCase_char a, toUpperCase_char a, toUpperCase_char b,
                       toUpperCase_char b, toUpperCase_char c, toUpperCase_char c])"
    and "is_RRGGBB [CHR ''#'', toUpperCase_char a, toUpperCase_char a, toUpperCase_char b,
                       toUpperCase_char b, toUpperCase_char c, toUpperCase_char c]"
  using assms
  by (simp_all add: toHex_hash_branch toHex_hash_def toUpperCase_def Let_def is_RRGGBB_def
      toUpperCase_hex_digit)

lemma toHex_hex6:
  assumes "list_all is_hex_digit ds" "length ds = 6"
  shows "toHex fillStyle (CHR ''#'' # ds) = Some (Some (CHR ''#'' # toUpperCase ds))"
    and "is_RRGGBB (CHR ''#'' # toUpperCase ds)"
proof -
  have u: "toUpperCase_char CHR ''#'' = CHR ''#''"
    by (simp add: toUpperCase_char_def upper_letters_def lower_letters_def)
  show "toHex fillStyle (CHR ''#'' # ds) = Some (Some (CHR ''#'' # toUpperCase ds))"
    using assms(2) by (simp add: toHex_hash_branch toHex_hash_def toUpperCase_def Let_def u)
  show "is_RRGGBB (CHR ''#'' # toUpperCase ds)"
    using assms by (simp add: is_RRGGBB_def toUpperCase_def list_all_iff toUpperCase_hex_digit)
qed

lemma toHex_hex8:
  assumes "list_all is_hex_digit ds" "length ds = 8"
  shows "toHex fillStyle (CHR ''#'' # ds) = Some (Some (CHR ''#'' # toUpperCase (take 6 ds)))"
    and "is_RRGGBB (CHR ''#'' # toUpperCase (take 6 ds))"
proof -
  have u: "toUpperCase_char CHR ''#'' = CHR ''#''"
    by (simp add: toUpperCase_char_def upper_letters_def lower_letters_def)
  show "toHex fillStyle (CHR ''#'' # ds) = Some (Some (CHR ''#'' # toUpperCase (take 6 ds)))"
    using assms(2) by (simp add: toHex_hash_branch toHex_hash_def toUpperCase_def Let_def u take_map)
  show "is_RRGGBB (CHR ''#'' # toUpperCase (take 6 ds))"
    using assms
    by (auto simp: is_RRGGBB_def toUpperCase_def list_all_iff toUpperCase_hex_digit dest: in_set_takeD)
qed

lemma HEX2_facts:
  "\<forall>n \<in> set [0 ..< 256]. length (HEX2 n) = 2 \<and> list_all is_hex_upper (HEX2 n)"
  by code_simp

lemma HEX2_props:
  assumes "n \<le> 255"
  shows "length (HEX2 n) = 2" "list_all is_hex_upper (HEX2 n)"
proof -
  have "n \<in> set [0 ..< 256]" using assms by simp
  with HEX2_facts have "length (HEX2 n) = 2 \<and> list_all is_hex_upper (HEX2 n)" by (rule bspec)
  then show "length (HEX2 n) = 2" "list_all is_hex_upper (HEX2 n)" by simp_all
qed


lemma decimal_props: "all_digits (decimal n)" "decimal n \<noteq> []"
  by (simp_all add: decimal_def all_digits_nat_toString nat_toString_nonempty)

lemma expect_Nil: "expect [] s = Some s"
  by (simp add: expect_def)

lemma expect_Cons: "expect (c # lit) (d # s) = (if c = d then expect lit s else None)"
  by (simp add: expect_def startsWith_def)

lemma skip_spaces_digits: "all_digits ds \<Longrightarrow> ds \<noteq> [] \<Longrightarrow> skip_spaces (ds @ rest) = ds @ rest"
  by (cases ds) (simp_all add: skip_spaces_def all_digits_def is_digit_props)

lemma skip_spaces_space: "skip_spaces (CHR '' '' # s) = skip_spaces s"
  by (simp add: skip_spaces_def is_space_def)

lemma skip_spaces_other: "\<not> is_space c \<Longrightarrow> skip_spaces (c # s) = c # s"
  by (simp add: skip_spaces_def)

lemma one_or_more_digits:
  assumes "all_digits ds" "ds \<noteq> []" "\<not> is_digit c"
  shows "one_or_more is_digit (ds @ c # rest) = Some (ds, c # rest)"
  using assms by (simp add: one_or_more_def takeWhile_digits)

lemma one_or_more_digits_end:
  assumes "all_digits ds" "ds \<noteq> []"
  shows "one_or_more is_digit ds = Some (ds, [])"
  using assms by (simp add: one_or_more_def takeWhile_all_digits)

lemma not_digit: "\<not> is_digit CHR '',''" "\<not> is_digit CHR '')''" "\<not> is_digit CHR ''%''"
  "\<not> is_space CHR '',''" "\<not> is_space CHR ''(''" "\<not> is_space CHR ''%''"
  by (simp_all add: is_digit_def is_space_def)

lemma optional_char_simps:
  "optional_char c (c # s) = s" "c \<noteq> d \<Longrightarrow> optional_char c (d # s) = d # s"
  by (simp_all add: optional_char_def startsWith_def)

lemma match_rgb_here_canonical:
  assumes "all_digits R" "R \<noteq> []" "all_digits G" "G \<noteq> []" "all_digits B" "B \<noteq> []"
    and "\<not> is_digit c"
  shows "match_rgb_here (''rgb('' @ R @ '', '' @ G @ '', '' @ B @ c # rest) = Some (R, G, B)"
    and "match_rgb_here (''rgba('' @ R @ '', '' @ G @ '', '' @ B @ c # rest) = Some (R, G, B)"
  using assms
  by (simp_all add: match_rgb_here_def expect_Cons expect_Nil optional_char_simps skip_spaces_other
      skip_spaces_space skip_spaces_digits one_or_more_digits not_digit)

lemma regex_search_here: "m (c # cs) = Some r \<Longrightarrow> regex_search m (c # cs) = Some r"
  by simp

lemma all_digits_no_prefix:
  assumes "all_digits s" "\<not> is_digit c"
  shows "\<not> startsWith s [c]" "\<not> startsWith s [d, c]"
proof -
  have "\<not> startsWith s t" if "c \<in> set t" for t
  proof
    assume "startsWith s t"
    then have "set t \<subseteq> set s" unfolding startsWith_def by (metis set_take_subset)
    with that assms show False by (auto simp: all_digits_def list_all_iff)
  qed
  then show "\<not> startsWith s [c]" "\<not> startsWith s [d, c]" by simp_all
qed

lemma radix_digit_facts: "\<forall>c \<in> set ''0123456789''. is_radix_digit 10 c \<and> \<not> is_space c"
  by code_simp

lemma takeWhile_radix_digits:
  assumes "all_digits s"
  shows "takeWhile (is_radix_digit 10) s = s"
proof -
  have "is_radix_digit 10 c" if "is_digit c" for c
    using radix_digit_facts that unfolding is_digit_def by blast
  with assms show ?thesis by (simp add: all_digits_def list_all_iff)
qed

lemma dropWhile_space_digits: "all_digits s \<Longrightarrow> dropWhile is_space s = s"
  by (cases s) (simp_all add: all_digits_def is_digit_props)

lemma parseInt_decimal: "parseInt (decimal n) None = Some (int n)"
proof -
  have a: "all_digits (decimal n)" and ne: "decimal n \<noteq> []" by (rule decimal_props)+
  have nd: "\<not> is_digit CHR ''-''" "\<not> is_digit CHR ''+''" "\<not> is_digit CHR ''x''" "\<not> is_digit CHR ''X''"
    by (simp_all add: is_digit_def)
  have p: "\<not> startsWith (decimal n) ''-''" "\<not> startsWith (decimal n) ''+''"
    "\<not> startsWith (decimal n) ''0x''" "\<not> startsWith (decimal n) ''0X''"
    using all_digits_no_prefix[OF a] nd by simp_all
  have dv: "digits_value 10 (decimal n) = n"
    by (simp add: decimal_def digits_value_nat_toString)
  show ?thesis
    unfolding parseInt_def Let_def dropWhile_space_digits[OF a]
    using p ne
    by (simp add: takeWhile_radix_digits[OF a] dv)
qed

lemma toHex_rgb_canonical:
  assumes "\<not> is_digit c"
  shows "toHex_rgb (''rgb('' @ decimal r @ '', '' @ decimal g @ '', '' @ decimal b @ c # rest) =
           Some (CHR ''#'' # HEX2 r @ HEX2 g @ HEX2 b)"
    and "toHex_rgb (''rgba('' @ decimal r @ '', '' @ decimal g @ '', '' @ decimal b @ c # rest) =
           Some (CHR ''#'' # HEX2 r @ HEX2 g @ HEX2 b)"
proof -
  note m = match_rgb_here_canonical[OF decimal_props decimal_props decimal_props assms, of r g b rest]
  have 1: "regex_search match_rgb_here
             (''rgb('' @ decimal r @ '', '' @ decimal g @ '', '' @ decimal b @ c # rest) =
           Some (decimal r, decimal g, decimal b)"
    using m(1) by simp
  have 2: "regex_search match_rgb_here
             (''rgba('' @ decimal r @ '', '' @ decimal g @ '', '' @ decimal b @ c # rest) =
           Some (decimal r, decimal g, decimal b)"
    using m(2) by simp
  have h: "toUpperCase (pad2 (integer_toString 16 (Some (int n)))) = HEX2 n" for n
    by (simp add: HEX2_def integer_toString_def int_toString_def)
  have u: "toUpperCase (xs @ ys) = toUpperCase xs @ toUpperCase ys" for xs ys
    by (simp add: toUpperCase_def)
  show "toHex_rgb (''rgb('' @ decimal r @ '', '' @ decimal g @ '', '' @ decimal b @ c # rest) =
           Some (CHR ''#'' # HEX2 r @ HEX2 g @ HEX2 b)"
    unfolding toHex_rgb_def 1 by (simp add: parseInt_decimal u h)
  show "toHex_rgb (''rgba('' @ decimal r @ '', '' @ decimal g @ '', '' @ decimal b @ c # rest) =
           Some (CHR ''#'' # HEX2 r @ HEX2 g @ HEX2 b)"
    unfolding toHex_rgb_def 2 by (simp add: parseInt_decimal u h)
qed

lemma toHex_rgb_branch:
  assumes "startsWith color ''rgb''" "toHex_rgb color = Some hex"
  shows "toHex fillStyle color = Some (Some hex)"
proof -
  have "color \<noteq> []" using assms(1) by (auto simp: startsWith_def)
  then show ?thesis using assms by (subst toHex.simps) simp
qed

lemma is_RRGGBB_HEX2:
  assumes "r \<le> 255" "g \<le> 255" "b \<le> 255"
  shows "is_RRGGBB (CHR ''#'' # HEX2 r @ HEX2 g @ HEX2 b)"
  using HEX2_props[OF assms(1)] HEX2_props[OF assms(2)] HEX2_props[OF assms(3)]
  by (simp add: is_RRGGBB_def)




lemma one_or_more_digits_or_dot:
  assumes "all_digits ds" "ds \<noteq> []" "\<not> is_digit_or_dot c"
  shows "one_or_more is_digit_or_dot (ds @ c # rest) = Some (ds, c # rest)"
proof -
  have "\<forall>x \<in> set ds. is_digit_or_dot x"
    using assms(1) by (simp add: all_digits_def list_all_iff is_digit_or_dot_def)
  then have "takeWhile is_digit_or_dot (ds @ c # rest) = ds"
    "dropWhile is_digit_or_dot (ds @ c # rest) = c # rest"
    using assms(3) by (simp_all add: takeWhile_append2 dropWhile_append2)
  then show ?thesis using assms(2) by (simp add: one_or_more_def)
qed

lemma not_digit_or_dot: "\<not> is_digit_or_dot CHR '',''" "\<not> is_digit_or_dot CHR ''%''"
  by (simp_all add: is_digit_or_dot_def is_digit_def)

lemma match_hsl_here_canonical:
  assumes "all_digits H" "H \<noteq> []" "all_digits S" "S \<noteq> []" "all_digits L" "L \<noteq> []"
  shows "match_hsl_here (''hsl('' @ H @ '', '' @ S @ ''%, '' @ L @ ''%'' @ rest) = Some (H, S, L)"
    and "match_hsl_here (''hsla('' @ H @ '', '' @ S @ ''%, '' @ L @ ''%'' @ rest) = Some (H, S, L)"
  using assms
  by (simp_all add: match_hsl_here_def expect_Cons expect_Nil optional_char_simps skip_spaces_other
      skip_spaces_space skip_spaces_digits one_or_more_digits_or_dot not_digit not_digit_or_dot)

lemma parseFloat_decimal: "parseFloat (decimal n) = Num (of_nat n)"
proof -
  have a: "all_digits (decimal n)" and ne: "decimal n \<noteq> []" by (rule decimal_props)+
  have nd: "\<not> is_digit CHR ''-''" "\<not> is_digit CHR ''+''" "\<not> is_digit CHR ''I''"
    by (simp_all add: is_digit_def)
  have p: "\<not> startsWith (decimal n) ''-''" "\<not> startsWith (decimal n) ''+''"
    using all_digits_no_prefix(1)[OF a] nd by simp_all
  have i: "\<not> startsWith (decimal n) ''Infinity''"
  proof
    assume "startsWith (decimal n) ''Infinity''"
    then have "set ''Infinity'' \<subseteq> set (decimal n)"
      unfolding startsWith_def by (metis set_take_subset)
    then have "is_digit CHR ''I''" using a by (auto simp: all_digits_def list_all_iff)
    with nd show False by simp
  qed
  have dv: "digits_value 10 (decimal n) = n"
    by (simp add: decimal_def digits_value_nat_toString)
  have e: "digits_value 10 [] = 0" by (simp add: digits_value_def)
  show ?thesis
    unfolding parseFloat_def Let_def dropWhile_space_digits[OF a]
    using p i ne
    by (simp add: takeWhile_all_digits[OF a] dv e exponent_part_Nil scale10_def startsWith_def)
qed

lemma hue2rgb_range:
  fixes p q t :: rat
  assumes "0 \<le> p" "p \<le> q" "q \<le> 1" "- 1 \<le> t"
  shows "\<exists>c. hue2rgb (Num p) (Num q) (Num t) = Num c \<and> 0 \<le> c \<and> c \<le> 1"
proof -
  define t1 where "t1 = (if t < 0 then t + 1 else t)"
  define t2 where "t2 = (if 1 < t1 then t1 - 1 else t1)"
  have t2: "0 \<le> t2" using assms(4) by (auto simp: t1_def t2_def)
  have eq: "hue2rgb (Num p) (Num q) (Num t) =
      (if t2 < 1 / 6 then Num (p + (q - p) * 6 * t2)
       else if t2 < 1 / 2 then Num q
       else if t2 < 2 / 3 then Num (p + (q - p) * (2 / 3 - t2) * 6)
       else Num p)"
    by (simp add: hue2rgb_def Let_def js_gt_def js_sub_def t1_def t2_def)
  have d: "0 \<le> q - p" using assms by simp
  consider "t2 < 1 / 6" | "\<not> t2 < 1 / 6" "t2 < 1 / 2" | "\<not> t2 < 1 / 2" "t2 < 2 / 3" | "\<not> t2 < 2 / 3"
    by linarith
  then show ?thesis
  proof cases
    case 1
    define u where "u = 6 * t2"
    have u: "0 \<le> u" "u \<le> 1" using t2 1 by (simp_all add: u_def)
    have lo: "0 \<le> (q - p) * u" using d u(1) by (rule mult_nonneg_nonneg)
    have "(q - p) * u \<le> (q - p) * 1" using u(2) d by (rule mult_left_mono)
    then have hi: "(q - p) * u \<le> q - p" by simp
    have c: "p + (q - p) * 6 * t2 = p + (q - p) * u" by (simp add: u_def)
    have "0 \<le> p + (q - p) * 6 * t2" "p + (q - p) * 6 * t2 \<le> 1"
      unfolding c using lo hi assms by linarith+
    then show ?thesis using 1 by (simp add: eq)
  next
    case 2
    then show ?thesis using assms by (simp add: eq)
  next
    case 3
    define u where "u = (2 / 3 - t2) * 6"
    have u: "0 \<le> u" "u \<le> 1" using 3 by (simp_all add: u_def)
    have lo: "0 \<le> (q - p) * u" using d u(1) by (rule mult_nonneg_nonneg)
    have "(q - p) * u \<le> (q - p) * 1" using u(2) d by (rule mult_left_mono)
    then have hi: "(q - p) * u \<le> q - p" by simp
    have c: "p + (q - p) * (2 / 3 - t2) * 6 = p + (q - p) * u" by (simp add: u_def)
    have "0 \<le> p + (q - p) * (2 / 3 - t2) * 6" "p + (q - p) * (2 / 3 - t2) * 6 \<le> 1"
      unfolding c using lo hi assms by linarith+
    then show ?thesis using 3 by (simp add: eq)
  next
    case 4
    then have "\<not> t2 < 1 / 6" "\<not> t2 < 1 / 2" by linarith+
    with 4 show ?thesis using assms by (simp add: eq)
  qed
qed

lemma hsl_pq_range:
  fixes s l :: rat
  assumes "0 \<le> s" "s \<le> 1" "0 \<le> l" "l \<le> 1"
  defines "q \<equiv> (if l < 1 / 2 then l * (1 + s) else l + s - l * s)"
  defines "p \<equiv> 2 * l - q"
  shows "0 \<le> p" "p \<le> q" "q \<le> 1"
proof -
  have ls: "0 \<le> l * s" using assms(3,1) by (rule mult_nonneg_nonneg)
  have ls1: "l * s \<le> l * 1" using assms(2,3) by (rule mult_left_mono)
  have sl: "0 \<le> s * (1 - l)" using assms by (simp add: mult_nonneg_nonneg)
  have sl1: "s * (1 - l) \<le> 1 * (1 - l)" using assms by (intro mult_right_mono) simp_all
  have e: "l + s - l * s = l + s * (1 - l)" by (simp add: algebra_simps)
  have e2: "l * (1 + s) = l + l * s" by (simp add: algebra_simps)
  show "0 \<le> p" using ls ls1 sl sl1 unfolding p_def q_def e e2 by (auto split: if_splits)
  show "p \<le> q" using ls ls1 sl sl1 unfolding p_def q_def e e2 by (auto split: if_splits)
  show "q \<le> 1" using ls ls1 sl sl1 unfolding p_def q_def e e2 by (auto split: if_splits)
qed

lemma hslToRgb_range:
  fixes h s l :: rat
  assumes "0 \<le> h" "0 \<le> s" "s \<le> 1" "0 \<le> l" "l \<le> 1"
  shows "\<exists>r g b. hslToRgb (Num h) (Num s) (Num l) = [Num r, Num g, Num b] \<and>
           0 \<le> r \<and> r \<le> 255 \<and> 0 \<le> g \<and> g \<le> 255 \<and> 0 \<le> b \<and> b \<le> 255"
proof (cases "s = 0")
  case True
  then show ?thesis using assms by (simp add: hslToRgb_def js_eq_def)
next
  case False
  define q where "q = (if l < 1 / 2 then l * (1 + s) else l + s - l * s)"
  define p where "p = 2 * l - q"
  have pq: "0 \<le> p" "p \<le> q" "q \<le> 1"
    using hsl_pq_range[OF assms(2-5)] unfolding p_def q_def by simp_all
  obtain r where r: "hue2rgb (Num p) (Num q) (Num (h + 1 / 3)) = Num r" "0 \<le> r" "r \<le> 1"
    using hue2rgb_range[OF pq, of "h + 1 / 3"] assms(1) by auto
  obtain g where g: "hue2rgb (Num p) (Num q) (Num h) = Num g" "0 \<le> g" "g \<le> 1"
    using hue2rgb_range[OF pq, of h] assms(1) by auto
  obtain b where b: "hue2rgb (Num p) (Num q) (Num (h - 1 / 3)) = Num b" "0 \<le> b" "b \<le> 1"
    using hue2rgb_range[OF pq, of "h - 1 / 3"] assms(1) by auto
  have qe: "(if js_lt (Num l) (Num (1 / 2)) then js_mul (Num l) (js_add (Num 1) (Num s))
             else js_sub (js_add (Num l) (Num s)) (js_mul (Num l) (Num s))) = Num q"
    by (simp add: q_def js_sub_def)
  have pe: "js_sub (js_mul (Num 2) (Num l)) (Num q) = Num p"
    by (simp add: p_def js_sub_def)
  have te: "js_add (Num h) (Num (1 / 3)) = Num (h + 1 / 3)" "js_sub (Num h) (Num (1 / 3)) = Num (h - 1 / 3)"
    by (simp_all add: js_sub_def)
  have "hslToRgb (Num h) (Num s) (Num l) = [Num (r * 255), Num (g * 255), Num (b * 255)]"
    unfolding hslToRgb_def Let_def qe pe te r(1) g(1) b(1)
    using False by (simp add: js_eq_def)
  with r g b show ?thesis by simp
qed

lemma rounded_toString_channel:
  fixes x :: rat
  assumes "0 \<le> x" "x \<le> 255"
  shows "\<exists>n \<le> 255. toUpperCase (pad2 (rounded_toString 16 (Num x))) = HEX2 n"
proof -
  define m where "m = Math_round x"
  have "0 \<le> m" unfolding m_def Math_round_def using assms(1) by simp
  moreover have "m \<le> 255"
  proof -
    have "x + 1 / 2 < 256" using assms(2) by simp
    then have "\<lfloor>x + 1 / 2\<rfloor> < 256" by (simp add: floor_less_iff)
    then show ?thesis by (simp add: m_def Math_round_def)
  qed
  ultimately have "nat m \<le> 255" "int_toString 16 m = nat_toString 16 (nat m)"
    by (simp_all add: int_toString_def)
  then show ?thesis
    by (intro exI[of _ "nat m"]) (simp add: rounded_toString_def HEX2_def m_def)
qed

lemma toHex_hsl_canonical:
  assumes "s \<le> 100" "l \<le> 100"
  shows "\<exists>r g b. r \<le> 255 \<and> g \<le> 255 \<and> b \<le> 255 \<and>
           toHex_hsl (''hsl('' @ decimal h @ '', '' @ decimal s @ ''%, '' @ decimal l @ ''%'' @ rest) =
             Some (CHR ''#'' # HEX2 r @ HEX2 g @ HEX2 b) \<and>
           toHex_hsl (''hsla('' @ decimal h @ '', '' @ decimal s @ ''%, '' @ decimal l @ ''%'' @ rest) =
             Some (CHR ''#'' # HEX2 r @ HEX2 g @ HEX2 b)"
proof -
  note m = match_hsl_here_canonical[OF decimal_props decimal_props decimal_props, of h s l rest]
  have 1: "regex_search match_hsl_here
             (''hsl('' @ decimal h @ '', '' @ decimal s @ ''%, '' @ decimal l @ ''%'' @ rest) =
           Some (decimal h, decimal s, decimal l)"
    using m(1) by simp
  have 2: "regex_search match_hsl_here
             (''hsla('' @ decimal h @ '', '' @ decimal s @ ''%, '' @ decimal l @ ''%'' @ rest) =
           Some (decimal h, decimal s, decimal l)"
    using m(2) by simp
  let ?h = "of_nat h / 360 :: rat" and ?s = "of_nat s / 100 :: rat" and ?l = "of_nat l / 100 :: rat"
  have b: "0 \<le> ?h" "0 \<le> ?s" "?s \<le> 1" "0 \<le> ?l" "?l \<le> 1"
    using assms by simp_all
  obtain r g b where rgb: "hslToRgb (Num ?h) (Num ?s) (Num ?l) = [Num r, Num g, Num b]"
      "0 \<le> r" "r \<le> 255" "0 \<le> g" "g \<le> 255" "0 \<le> b" "b \<le> 255"
    using hslToRgb_range[OF b] by blast
  obtain r' where r': "r' \<le> 255" "toUpperCase (pad2 (rounded_toString 16 (Num r))) = HEX2 r'"
    using rounded_toString_channel[OF rgb(2,3)] by blast
  obtain g' where g': "g' \<le> 255" "toUpperCase (pad2 (rounded_toString 16 (Num g))) = HEX2 g'"
    using rounded_toString_channel[OF rgb(4,5)] by blast
  obtain b' where b': "b' \<le> 255" "toUpperCase (pad2 (rounded_toString 16 (Num b))) = HEX2 b'"
    using rounded_toString_channel[OF rgb(6,7)] by blast
  have u: "toUpperCase (xs @ ys) = toUpperCase xs @ toUpperCase ys" for xs ys
    by (simp add: toUpperCase_def)
  have d: "js_div (Num (of_nat h)) (Num 360) = Num ?h" "js_div (Num (of_nat s)) (Num 100) = Num ?s"
    "js_div (Num (of_nat l)) (Num 100) = Num ?l"
    by simp_all
  have "toHex_hsl (''hsl('' @ decimal h @ '', '' @ decimal s @ ''%, '' @ decimal l @ ''%'' @ rest) =
             Some (CHR ''#'' # HEX2 r' @ HEX2 g' @ HEX2 b')"
    unfolding toHex_hsl_def 1 by (simp add: parseFloat_decimal d rgb(1) u r' g' b' del: js_div.simps)
  moreover have "toHex_hsl (''hsla('' @ decimal h @ '', '' @ decimal s @ ''%, '' @ decimal l @ ''%'' @ rest) =
             Some (CHR ''#'' # HEX2 r' @ HEX2 g' @ HEX2 b')"
    unfolding toHex_hsl_def 2 by (simp add: parseFloat_decimal d rgb(1) u r' g' b' del: js_div.simps)
  ultimately show ?thesis using r'(1) g'(1) b'(1) by blast
qed

lemma toHex_hsl_branch:
  assumes "startsWith color ''hsl''" "toHex_hsl color = Some hex"
  shows "toHex fillStyle color = Some (Some hex)"
proof -
  have "color \<noteq> []" "\<not> startsWith color ''rgb''"
    using assms(1) by (auto simp: startsWith_def)
  then show ?thesis using assms by (subst toHex.simps) simp
qed

lemma toHex_examples:
  "toHex fillStyle ''rgb(255, 0, 0)'' = Some (Some ''#FF0000'')"
  "toHex fillStyle ''hsl(0, 100%, 50%)'' = Some (Some ''#FF0000'')"
proof -
  have 1: "toHex_rgb ''rgb(255, 0, 0)'' = Some ''#FF0000''" by code_simp
  have 2: "toHex_hsl ''hsl(0, 100%, 50%)'' = Some ''#FF0000''" by code_simp
  show "toHex fillStyle ''rgb(255, 0, 0)'' = Some (Some ''#FF0000'')"
    by (rule toHex_rgb_branch[OF _ 1]) (simp add: startsWith_def)
  show "toHex fillStyle ''hsl(0, 100%, 50%)'' = Some (Some ''#FF0000'')"
    by (rule toHex_hsl_branch[OF _ 2]) (simp add: startsWith_def)
qed

lemma demo_numerals:
  "decimal 51 = ''51''" "decimal 102 = ''102''" "decimal 255 = ''255''"
  "decimal 210 = ''210''" "decimal 50 = ''50''" "decimal 40 = ''40''"
  "HEX2 51 = ''33''" "HEX2 102 = ''66''" "HEX2 255 = ''FF''"
  by code_simp+

text \<open>
  C2, as stated, fails: \<open>toHex\<close> writes each channel of an \<open>rgb()\<close> string in hex without
  clamping it, so a channel above 255 gives more than six digits; and a 4-digit hex
  string is returned as it is, in upper case.
\<close>

theorem toHex_cex:
  "toHex no_canvas ''rgb(300, 0, 0)'' = Some (Some ''#12C0000'') \<and> \<not> is_RRGGBB ''#12C0000'' \<and>
   toHex no_canvas ''#F00A'' = Some (Some ''#F00A'') \<and> \<not> is_RRGGBB ''#F00A''"
  by code_simp

text \<open>
  C2, amended: for the string \<open>rgb(R, G, B)\<close> or \<open>rgba(R, G, B, A)\<close> with channels up to 255
  in decimal, \<open>toHex\<close> returns \<open>#\<close> and the two upper-case hex digits of each channel; for
  \<open>hsl(H, S%, L%)\<close> or \<open>hsla(H, S%, L%, A)\<close> with natural numbers, \<open>S\<close> and \<open>L\<close> up to 100, it
  returns an upper-case \<open>#RRGGBB\<close> string, the same with and without alpha; for a 3-digit
  hex string it doubles each digit, for a 6-digit one it returns it, for an 8-digit one
  it drops the last two digits, all in upper case; and \<open>rgb(255, 0, 0)\<close> and
  \<open>hsl(0, 100%, 50%)\<close> both give \<open>#FF0000\<close>. The canvas is not consulted on any of these.
\<close>

theorem toHex_forms:
  "(r \<le> 255 \<and> g \<le> 255 \<and> b \<le> 255 \<longrightarrow>
      toHex fillStyle (''rgb('' @ decimal r @ '', '' @ decimal g @ '', '' @ decimal b @ '')'') =
        Some (Some (CHR ''#'' # HEX2 r @ HEX2 g @ HEX2 b)) \<and>
      toHex fillStyle
          (''rgba('' @ decimal r @ '', '' @ decimal g @ '', '' @ decimal b @ '', '' @ alpha @ '')'') =
        Some (Some (CHR ''#'' # HEX2 r @ HEX2 g @ HEX2 b)) \<and>
      is_RRGGBB (CHR ''#'' # HEX2 r @ HEX2 g @ HEX2 b)) \<and>
   (s \<le> 100 \<and> l \<le> 100 \<longrightarrow>
      (\<exists>x. is_RRGGBB x \<and>
           toHex fillStyle (''hsl('' @ decimal h @ '', '' @ decimal s @ ''%, '' @ decimal l @ ''%)'') =
             Some (Some x) \<and>
           toHex fillStyle
               (''hsla('' @ decimal h @ '', '' @ decimal s @ ''%, '' @ decimal l @ ''%, '' @ alpha' @ '')'') =
             Some (Some x))) \<and>
   (list_all is_hex_digit [da, db, dc] \<longrightarrow>
      toHex fillStyle [CHR ''#'', da, db, dc] =
        Some (Some [CHR ''#'', toUpperCase_char da, toUpperCase_char da, toUpperCase_char db,
                    toUpperCase_char db, toUpperCase_char dc, toUpperCase_char dc]) \<and>
      is_RRGGBB [CHR ''#'', toUpperCase_char da, toUpperCase_char da, toUpperCase_char db,
                 toUpperCase_char db, toUpperCase_char dc, toUpperCase_char dc]) \<and>
   (list_all is_hex_digit six \<and> length six = 6 \<longrightarrow>
      toHex fillStyle (CHR ''#'' # six) = Some (Some (CHR ''#'' # toUpperCase six)) \<and>
      is_RRGGBB (CHR ''#'' # toUpperCase six)) \<and>
   (list_all is_hex_digit eight \<and> length eight = 8 \<longrightarrow>
      toHex fillStyle (CHR ''#'' # eight) = Some (Some (CHR ''#'' # toUpperCase (take 6 eight))) \<and>
      is_RRGGBB (CHR ''#'' # toUpperCase (take 6 eight))) \<and>
   toHex fillStyle ''rgb(255, 0, 0)'' = Some (Some ''#FF0000'') \<and>
   toHex fillStyle ''hsl(0, 100%, 50%)'' = Some (Some ''#FF0000'')"
proof (intro conjI impI)
  assume a: "r \<le> 255 \<and> g \<le> 255 \<and> b \<le> 255"
  have nd: "\<not> is_digit CHR '')''" "\<not> is_digit CHR '',''" by (rule not_digit)+
  have 1: "toHex_rgb (''rgb('' @ decimal r @ '', '' @ decimal g @ '', '' @ decimal b @ '')'') =
             Some (CHR ''#'' # HEX2 r @ HEX2 g @ HEX2 b)"
    using toHex_rgb_canonical(1)[OF nd(1), of r g b "[]"] by simp
  have 2: "toHex_rgb
             (''rgba('' @ decimal r @ '', '' @ decimal g @ '', '' @ decimal b @ '', '' @ alpha @ '')'') =
             Some (CHR ''#'' # HEX2 r @ HEX2 g @ HEX2 b)"
    using toHex_rgb_canonical(2)[OF nd(2), of r g b "'' '' @ alpha @ '')''"] by simp
  show "toHex fillStyle (''rgb('' @ decimal r @ '', '' @ decimal g @ '', '' @ decimal b @ '')'') =
        Some (Some (CHR ''#'' # HEX2 r @ HEX2 g @ HEX2 b))"
    by (rule toHex_rgb_branch[OF _ 1]) (simp add: startsWith_def)
  show "toHex fillStyle
          (''rgba('' @ decimal r @ '', '' @ decimal g @ '', '' @ decimal b @ '', '' @ alpha @ '')'') =
        Some (Some (CHR ''#'' # HEX2 r @ HEX2 g @ HEX2 b))"
    by (rule toHex_rgb_branch[OF _ 2]) (simp add: startsWith_def)
  show "is_RRGGBB (CHR ''#'' # HEX2 r @ HEX2 g @ HEX2 b)"
    using a by (simp add: is_RRGGBB_HEX2)
next
  assume a: "s \<le> 100 \<and> l \<le> 100"
  let ?c1 = "''hsl('' @ decimal h @ '', '' @ decimal s @ ''%, '' @ decimal l @ ''%)''"
  let ?c2 = "''hsla('' @ decimal h @ '', '' @ decimal s @ ''%, '' @ decimal l @ ''%, '' @ alpha' @ '')''"
  obtain r1 g1 b1 where 1: "r1 \<le> 255" "g1 \<le> 255" "b1 \<le> 255"
      "toHex_hsl ?c1 = Some (CHR ''#'' # HEX2 r1 @ HEX2 g1 @ HEX2 b1)"
    using toHex_hsl_canonical[of s l h "'')''"] a by auto
  obtain r2 g2 b2 where 2: "r2 \<le> 255" "g2 \<le> 255" "b2 \<le> 255"
      "toHex_hsl (''hsl('' @ decimal h @ '', '' @ decimal s @ ''%, '' @ decimal l @ ''%'' @ '', '' @ alpha' @ '')'')
         = Some (CHR ''#'' # HEX2 r2 @ HEX2 g2 @ HEX2 b2)"
      "toHex_hsl ?c2 = Some (CHR ''#'' # HEX2 r2 @ HEX2 g2 @ HEX2 b2)"
    using toHex_hsl_canonical[of s l h "'', '' @ alpha' @ '')''"] a by auto
  have same: "CHR ''#'' # HEX2 r2 @ HEX2 g2 @ HEX2 b2 = CHR ''#'' # HEX2 r1 @ HEX2 g1 @ HEX2 b1"
  proof -
    have "toHex_hsl (''hsl('' @ decimal h @ '', '' @ decimal s @ ''%, '' @ decimal l @ ''%'' @ rest) =
          toHex_hsl (''hsl('' @ decimal h @ '', '' @ decimal s @ ''%, '' @ decimal l @ ''%'' @ rest')" for rest rest'
      using match_hsl_here_canonical(1)[OF decimal_props decimal_props decimal_props, of h s l]
      by (simp add: toHex_hsl_def)
    from this[of "'')''" "'', '' @ alpha' @ '')''"] 1(4) 2(4) show ?thesis by simp
  qed
  have x: "is_RRGGBB (CHR ''#'' # HEX2 r1 @ HEX2 g1 @ HEX2 b1)"
    using 1 by (simp add: is_RRGGBB_HEX2)
  have t1: "toHex fillStyle ?c1 = Some (Some (CHR ''#'' # HEX2 r1 @ HEX2 g1 @ HEX2 b1))"
    by (rule toHex_hsl_branch[OF _ 1(4)]) (simp add: startsWith_def)
  have t2: "toHex fillStyle ?c2 = Some (Some (CHR ''#'' # HEX2 r1 @ HEX2 g1 @ HEX2 b1))"
    by (rule toHex_hsl_branch[OF _ 2(5)[unfolded same]]) (simp add: startsWith_def)
  from x t1 t2 show "\<exists>x. is_RRGGBB x \<and> toHex fillStyle ?c1 = Some (Some x) \<and>
           toHex fillStyle ?c2 = Some (Some x)" by blast
next
  assume a: "list_all is_hex_digit [da, db, dc]"
  show "toHex fillStyle [CHR ''#'', da, db, dc] =
        Some (Some [CHR ''#'', toUpperCase_char da, toUpperCase_char da, toUpperCase_char db,
                    toUpperCase_char db, toUpperCase_char dc, toUpperCase_char dc])"
    by (rule toHex_hex3(1)[OF a])
  show "is_RRGGBB [CHR ''#'', toUpperCase_char da, toUpperCase_char da, toUpperCase_char db,
                 toUpperCase_char db, toUpperCase_char dc, toUpperCase_char dc]"
    by (rule toHex_hex3(2)[OF a])
next
  assume a: "list_all is_hex_digit six \<and> length six = 6"
  show "toHex fillStyle (CHR ''#'' # six) = Some (Some (CHR ''#'' # toUpperCase six))"
    using a toHex_hex6(1) by blast
  show "is_RRGGBB (CHR ''#'' # toUpperCase six)"
    using a toHex_hex6(2) by blast
next
  assume a: "list_all is_hex_digit eight \<and> length eight = 8"
  show "toHex fillStyle (CHR ''#'' # eight) = Some (Some (CHR ''#'' # toUpperCase (take 6 eight)))"
    using a toHex_hex8(1) by blast
  show "is_RRGGBB (CHR ''#'' # toUpperCase (take 6 eight))"
    using a toHex_hex8(2) by blast
next
  show "toHex fillStyle ''rgb(255, 0, 0)'' = Some (Some ''#FF0000'')"
    "toHex fillStyle ''hsl(0, 100%, 50%)'' = Some (Some ''#FF0000'')"
    by (rule toHex_examples)+
qed

theorem toHex_forms_witness:
  "toHex no_canvas ''rgb(51, 102, 255)'' = Some (Some ''#3366FF'') \<and>
   toHex no_canvas ''rgba(51, 102, 255, 0.5)'' = Some (Some ''#3366FF'') \<and>
   is_RRGGBB ''#3366FF'' \<and>
   (\<exists>x. is_RRGGBB x \<and> toHex no_canvas ''hsl(210, 50%, 40%)'' = Some (Some x) \<and>
        toHex no_canvas ''hsla(210, 50%, 40%, 0.5)'' = Some (Some x)) \<and>
   toHex no_canvas ''#f00'' = Some (Some ''#FF0000'') \<and>
   toHex no_canvas ''#3366ff'' = Some (Some ''#3366FF'') \<and>
   toHex no_canvas ''#3366ff80'' = Some (Some ''#3366FF'')"
proof -
  note T = toHex_forms[where fillStyle = no_canvas and r = 51 and g = 102 and b = 255
      and alpha = "''0.5''" and h = 210 and s = 50 and l = 40 and alpha' = "''0.5''"
      and da = "CHR ''f''" and db = "CHR ''0''" and dc = "CHR ''0''"
      and six = "''3366ff''" and eight = "''3366ff80''"]
  have h: "(51::nat) \<le> 255 \<and> (102::nat) \<le> 255 \<and> (255::nat) \<le> 255" "(50::nat) \<le> 100 \<and> (40::nat) \<le> 100"
    "list_all is_hex_digit ''f00''" "list_all is_hex_digit ''3366ff'' \<and> length ''3366ff'' = 6"
    "list_all is_hex_digit ''3366ff80'' \<and> length ''3366ff80'' = 8"
    by (simp_all add: is_hex_digit_def)
  have u: "toUpperCase_char CHR ''f'' = CHR ''F''" "toUpperCase_char CHR ''0'' = CHR ''0''"
    "toUpperCase ''3366ff'' = ''3366FF''"
    by code_simp+
  from T h show ?thesis
    by (simp add: demo_numerals u)
qed

end
